theory Spec2Isabelle
  imports Main "HOL-Library.AList"
begin

section \<open>Data model of \<^verbatim>\<open>public/scripts/personas.js\<close>\<close>

text \<open>
  A persona connection is \<^verbatim>\<open>{ type: 'character' | 'group', id: string }\<close>
  (the typedef \<^verbatim>\<open>PersonaConnection\<close> of the source).
\<close>

datatype connection_type = Character | Group

datatype PersonaConnection =
  PersonaConnection (conn_type: connection_type) (conn_id: string)

text \<open>
  Modelled from the spec: the enumeration \<^verbatim>\<open>persona_description_positions\<close> is imported
  from \<^verbatim>\<open>power-user.js\<close>, which is not among the sources. Its members are the ones the
  source names (\<^verbatim>\<open>IN_PROMPT\<close>, \<^verbatim>\<open>AFTER_CHAR\<close>, \<^verbatim>\<open>AT_DEPTH\<close>) and the spec's
  position "none".
\<close>

datatype persona_description_position = IN_PROMPT | AFTER_CHAR | AT_DEPTH | NONE

definition DEFAULT_DEPTH :: int where
  "DEFAULT_DEPTH = 2"

definition DEFAULT_ROLE :: int where
  "DEFAULT_ROLE = 0"

text \<open>
  A persona descriptor is a plain JavaScript object, so each property may be absent
  (\<^verbatim>\<open>undefined\<close>); the source reads them with \<^verbatim>\<open>??\<close> and \<^verbatim>\<open>?.\<close>. An absent property
  is \<open>None\<close>.
\<close>

record descriptor =
  description :: "string option"
  position :: "persona_description_position option"
  depth :: "int option"
  role :: "int option"
  lorebook :: "string option"
  connections :: "PersonaConnection list option"

text \<open>The operator \<^verbatim>\<open>a ?? b\<close>.\<close>

definition nullish :: "'a option \<Rightarrow> 'a \<Rightarrow> 'a" where
  "nullish a b = (case a of None \<Rightarrow> b | Some v \<Rightarrow> v)"

text \<open>
  Truthiness of a value that is a string, \<^verbatim>\<open>null\<close> or \<^verbatim>\<open>undefined\<close>: only a
  non-empty string is truthy.
\<close>

fun truthy :: "string option \<Rightarrow> bool" where
  "truthy None = False"
| "truthy (Some v) = (v \<noteq> [])"

text \<open>
  What the module reports to its collaborators: the persistence calls, the toasts (named by
  their title, the second argument of \<^verbatim>\<open>toastr.*\<close>), the console warnings (by their fixed
  text) and the persona selection popup with the list it offers.
\<close>

datatype event =
    SaveSettingsDebounced
  | SaveMetadataDebounced
  | SaveMetadata
  | ConsoleWarn string
  | ToastInfo string
  | ToastWarning string
  | ToastSuccess string
  | PersonaSelectionPopup "string list"
  | UploadUserAvatar string

text \<open>
  The mutable globals the module works on. \<^verbatim>\<open>power_user.personas\<close> and
  \<^verbatim>\<open>power_user.persona_descriptions\<close> are objects read through \<^verbatim>\<open>Object.entries\<close>, so they
  are association lists in property order: a new key is appended, an assignment to a
  present key keeps its place (the order JavaScript gives to keys that are not array
  indices; avatar ids are file names). \<^verbatim>\<open>chat_persona\<close> is \<^verbatim>\<open>chat_metadata['persona']\<close>.
\<close>

record state =
  personas :: "(string \<times> string) list"
  persona_descriptions :: "(string \<times> descriptor) list"
  default_persona :: "string option"
  persona_description :: string
  persona_description_position :: persona_description_position
  persona_description_depth :: int
  persona_description_role :: int
  persona_description_lorebook :: string
  persona_allow_multi_connections :: bool
  persona_auto_lock :: bool
  persona_show_notifications :: bool
  user_avatar :: string
  name1 :: string
  chat_persona :: "string option"
  events :: "event list"

text \<open>
  The chat that is open, owned by other modules: \<^verbatim>\<open>selected_group\<close> and
  \<^verbatim>\<open>characters[this_chid]?.avatar\<close>.
\<close>

record chat_context =
  selected_group :: "string option"
  character_avatar :: "string option"

datatype error = UnknownPersonaLockType string | TypeError

definition emit :: "event \<Rightarrow> state \<Rightarrow> state" where
  "emit e s = s\<lparr>events := events s @ [e]\<rparr>"

definition notify :: "event \<Rightarrow> state \<Rightarrow> state" where
  "notify e s = (if persona_show_notifications s then emit e s else s)"

section \<open>Lock state\<close>

definition isPersonaConnectionLocked :: "chat_context \<Rightarrow> PersonaConnection \<Rightarrow> bool" where
  "isPersonaConnectionLocked ctx connection \<longleftrightarrow>
     (\<not> truthy (selected_group ctx) \<and> conn_type connection = Character
        \<and> Some (conn_id connection) = character_avatar ctx)
   \<or> (truthy (selected_group ctx) \<and> conn_type connection = Group
        \<and> Some (conn_id connection) = selected_group ctx)"

definition isPersonaLocked :: "string \<Rightarrow> chat_context \<Rightarrow> state \<Rightarrow> error + bool" where
  "isPersonaLocked lockType ctx s =
    (if lockType = ''default'' then Inr (default_persona s = Some (user_avatar s))
     else if lockType = ''chat'' then Inr (chat_persona s = Some (user_avatar s))
     else if lockType = ''character'' then
       Inr (case map_of (persona_descriptions s) (user_avatar s) of
              None \<Rightarrow> False
            | Some d \<Rightarrow> (case connections d of
                           None \<Rightarrow> False
                         | Some cs \<Rightarrow> list_ex (isPersonaConnectionLocked ctx) cs))
     else Inl (UnknownPersonaLockType lockType))"

definition getCurrentConnectionObj :: "chat_context \<Rightarrow> PersonaConnection option" where
  "getCurrentConnectionObj ctx =
    (case selected_group ctx of
       Some g \<Rightarrow>
         (if g \<noteq> [] then Some (PersonaConnection Group g)
          else (case character_avatar ctx of
                  Some a \<Rightarrow> (if a \<noteq> [] then Some (PersonaConnection Character a) else None)
                | None \<Rightarrow> None))
     | None \<Rightarrow>
         (case character_avatar ctx of
            Some a \<Rightarrow> (if a \<noteq> [] then Some (PersonaConnection Character a) else None)
          | None \<Rightarrow> None))"

text \<open>
  \<^verbatim>\<open>toggleDefaultPersona(avatarId, { quiet })\<close>; \<open>confirm\<close> is the user's answer to the
  confirmation popup, asked only when not quiet.
\<close>

definition toggleDefaultPersona :: "string \<Rightarrow> bool \<Rightarrow> bool \<Rightarrow> state \<Rightarrow> state" where
  "toggleDefaultPersona avatarId quiet confirm s =
    (if avatarId = [] then emit (ConsoleWarn ''No avatar id found'') s
     else if map_of (personas s) avatarId = None then
       emit (ToastWarning ''Persona Name Not Set'')
         (emit (ConsoleWarn ''No persona name found for avatar'') s)
     else if Some avatarId = default_persona s then
       (if \<not> quiet \<and> \<not> confirm then s
        else emit SaveSettingsDebounced
               ((notify (ToastInfo ''Default Persona Removed'') s)\<lparr>default_persona := None\<rparr>))
     else
       (if \<not> quiet \<and> \<not> confirm then s
        else emit SaveSettingsDebounced
               (notify (ToastSuccess ''Default Persona'')
                  (s\<lparr>default_persona := Some avatarId\<rparr>))))"

definition unlockPersona :: "string \<Rightarrow> chat_context \<Rightarrow> state \<Rightarrow> error \<times> state + state" where
  "unlockPersona lockType ctx s =
    (if lockType = ''default'' then Inr (toggleDefaultPersona (user_avatar s) True True s)
     else if lockType = ''chat'' then
       Inr (if truthy (chat_persona s)
            then notify (ToastInfo ''Persona Unlocked'')
                   (emit SaveMetadata (s\<lparr>chat_persona := None\<rparr>))
            else s)
     else if lockType = ''character'' then
       Inr (case map_of (persona_descriptions s) (user_avatar s) of
              None \<Rightarrow> s
            | Some d \<Rightarrow>
                (case connections d of
                   None \<Rightarrow> s
                 | Some cs \<Rightarrow>
                     notify (ToastInfo ''Persona Unlocked'')
                       (emit SaveSettingsDebounced
                          (s\<lparr>persona_descriptions :=
                               AList.update (user_avatar s)
                                 (d\<lparr>connections :=
                                      Some (filter (\<lambda>c. \<not> isPersonaConnectionLocked ctx c) cs)\<rparr>)
                                 (persona_descriptions s)\<rparr>))))
     else Inl (UnknownPersonaLockType lockType, s))"

text \<open>
  The first block of \<^verbatim>\<open>lockPersona\<close>: make sure that \<^verbatim>\<open>user_avatar\<close> is a persona.
\<close>

definition createMissingPersona :: "state \<Rightarrow> state" where
  "createMissingPersona s =
    (if map_of (personas s) (user_avatar s) \<noteq> None then s
     else (notify (ToastInfo ''Persona Not Found'') s)
            \<lparr>personas := AList.update (user_avatar s) (name1 s) (personas s),
             persona_descriptions :=
               AList.update (user_avatar s)
                 \<lparr>description = Some [], position = Some IN_PROMPT,
                  depth = Some DEFAULT_DEPTH, role = Some DEFAULT_ROLE,
                  lorebook = Some [], connections = Some []\<rparr>
                 (persona_descriptions s)\<rparr>)"

text \<open>
  The loop of \<^verbatim>\<open>lockPersona\<close> over \<^verbatim>\<open>Object.entries(power_user.persona_descriptions)\<close>
  that runs when multiple connections are not allowed.
\<close>

definition unlinkOther :: "string \<Rightarrow> PersonaConnection \<Rightarrow> string \<times> descriptor \<Rightarrow> string \<times> descriptor" where
  "unlinkOther userAvatar newConnection entry =
    (let avatarId = fst entry; description = snd entry in
     if avatarId = userAvatar then entry
     else
       let filteredConnections =
             (case connections description of
                None \<Rightarrow> []
              | Some cs \<Rightarrow>
                  filter (\<lambda>c. \<not> (conn_type c = conn_type newConnection
                                  \<and> conn_id c = conn_id newConnection)) cs)
       in if Some (length filteredConnections) \<noteq> map_option length (connections description)
          then (avatarId, description\<lparr>connections := Some filteredConnections\<rparr>)
          else entry)"

definition lockPersonaToCharacter :: "chat_context \<Rightarrow> state \<Rightarrow> error \<times> state + state" where
  "lockPersonaToCharacter ctx s =
    (case map_of (persona_descriptions s) (user_avatar s) of
       None \<Rightarrow> Inl (TypeError, s)
     | Some d \<Rightarrow>
         (let newConnection = getCurrentConnectionObj ctx;
              kept =
                (case connections d of
                   None \<Rightarrow> []
                 | Some cs \<Rightarrow> filter (\<lambda>c. \<not> isPersonaConnectionLocked ctx c) cs)
          in case newConnection of
               None \<Rightarrow> Inr s
             | Some new \<Rightarrow>
                 (let descs = AList.update (user_avatar s)
                                (d\<lparr>connections := Some (kept @ [new])\<rparr>)
                                (persona_descriptions s);
                      descs' = (if \<not> persona_allow_multi_connections s
                                then map (unlinkOther (user_avatar s) new) descs
                                else descs)
                  in Inr (notify (ToastSuccess ''Persona Locked'')
                            (emit SaveSettingsDebounced
                               (s\<lparr>persona_descriptions := descs'\<rparr>))))))"

definition lockPersona :: "string \<Rightarrow> chat_context \<Rightarrow> state \<Rightarrow> error \<times> state + state" where
  "lockPersona lockType ctx s0 =
    (let s = createMissingPersona s0 in
     if lockType = ''default'' then Inr (toggleDefaultPersona (user_avatar s) True True s)
     else if lockType = ''chat'' then
       Inr (notify (ToastSuccess ''Persona Locked'')
              (emit SaveMetadataDebounced (s\<lparr>chat_persona := Some (user_avatar s)\<rparr>)))
     else if lockType = ''character'' then lockPersonaToCharacter ctx s
     else Inl (UnknownPersonaLockType lockType, s))"

definition setPersonaLockState :: "bool \<Rightarrow> string \<Rightarrow> chat_context \<Rightarrow> state \<Rightarrow> error \<times> state + state" where
  "setPersonaLockState st lockType ctx s =
    (if st then lockPersona lockType ctx s else unlockPersona lockType ctx s)"

definition togglePersonaLock :: "string \<Rightarrow> chat_context \<Rightarrow> state \<Rightarrow> error \<times> state + state \<times> bool" where
  "togglePersonaLock lockType ctx s =
    (case isPersonaLocked lockType ctx s of
       Inl e \<Rightarrow> Inl (e, s)
     | Inr True \<Rightarrow> map_sum id (\<lambda>s'. (s', False)) (unlockPersona lockType ctx s)
     | Inr False \<Rightarrow> map_sum id (\<lambda>s'. (s', True)) (lockPersona lockType ctx s))"

section \<open>Selecting a persona\<close>

text \<open>
  Modelled from the spec: \<^verbatim>\<open>setUserName\<close> belongs to \<^verbatim>\<open>script.js\<close>, which is not among
  the sources. The active persona drives the display name, so the call makes \<^verbatim>\<open>name1\<close> the
  given name.
\<close>

definition setUserName :: "string \<Rightarrow> state \<Rightarrow> state" where
  "setUserName personaName s = s\<lparr>name1 := personaName\<rparr>"

text \<open>The part of \<^verbatim>\<open>setPersonaDescription\<close> that is not rendering.\<close>

definition setPersonaDescription :: "state \<Rightarrow> state" where
  "setPersonaDescription s =
    (if persona_description_position s = AFTER_CHAR
     then s\<lparr>persona_description_position := IN_PROMPT\<rparr> else s)"

definition temporaryPersonaNotice :: "state \<Rightarrow> state" where
  "temporaryPersonaNotice s =
    (let hasDifferentChatLock =
           (truthy (chat_persona s) \<and> chat_persona s \<noteq> Some (user_avatar s));
         hasDifferentDefaultLock =
           (truthy (default_persona s) \<and> default_persona s \<noteq> Some (user_avatar s))
     in if persona_show_notifications s
           \<and> (hasDifferentChatLock \<or> (\<not> truthy (chat_persona s) \<and> hasDifferentDefaultLock))
        then emit (ToastInfo ''Temporary Persona'') s else s)"

text \<open>
  The branch of \<^verbatim>\<open>selectCurrentPersona\<close> on the descriptor of the selected avatar: its
  properties become the current description settings, or a fresh descriptor is stored.
\<close>

definition applyDescriptor :: "state \<Rightarrow> state" where
  "applyDescriptor s =
    (case map_of (persona_descriptions s) (user_avatar s) of
       Some descriptor \<Rightarrow>
         s\<lparr>persona_description := nullish (description descriptor) [],
           persona_description_position := nullish (position descriptor) IN_PROMPT,
           persona_description_depth := nullish (depth descriptor) DEFAULT_DEPTH,
           persona_description_role := nullish (role descriptor) DEFAULT_ROLE,
           persona_description_lorebook := nullish (lorebook descriptor) []\<rparr>
     | None \<Rightarrow>
         s\<lparr>persona_description := [],
           persona_description_position := IN_PROMPT,
           persona_description_depth := DEFAULT_DEPTH,
           persona_description_role := DEFAULT_ROLE,
           persona_description_lorebook := [],
           persona_descriptions :=
             AList.update (user_avatar s)
               \<lparr>description = Some [], position = Some IN_PROMPT,
                depth = Some DEFAULT_DEPTH, role = Some DEFAULT_ROLE,
                lorebook = Some [], connections = Some []\<rparr>
               (persona_descriptions s)\<rparr>)"

text \<open>The block of \<^verbatim>\<open>selectCurrentPersona\<close> guarded by \<^verbatim>\<open>shouldAutoLock\<close>.\<close>

definition autoLock :: "bool \<Rightarrow> bool \<Rightarrow> state \<Rightarrow> state" where
  "autoLock shouldAutoLock toastPersonaNameChange s =
    (if shouldAutoLock
     then emit SaveMetadataDebounced
            ((if toastPersonaNameChange then notify (ToastSuccess ''Persona Selected'') else id)
               (s\<lparr>chat_persona := Some (user_avatar s)\<rparr>))
     else s)"

definition selectCurrentPersona :: "bool \<Rightarrow> state \<Rightarrow> state" where
  "selectCurrentPersona toastPersonaNameChange s =
    (case map_of (personas s) (user_avatar s) of
       None \<Rightarrow> s
     | Some personaName \<Rightarrow>
         if personaName = [] then s
         else
           let shouldAutoLock = (persona_auto_lock s \<and> Some (user_avatar s) \<noteq> chat_persona s)
           in temporaryPersonaNotice
                (autoLock shouldAutoLock toastPersonaNameChange
                   (setPersonaDescription
                      (applyDescriptor
                         (if personaName \<noteq> name1 s then setUserName personaName s else s)))))"

text \<open>
  \<^verbatim>\<open>setUserAvatar(imgfile, { toastPersonaNameChange })\<close> for a non-empty string \<open>imgfile\<close>, the
  only way the resolution calls it (for any other argument the source reads the avatar id
  from the clicked element).
\<close>

definition setUserAvatar :: "string \<Rightarrow> bool \<Rightarrow> state \<Rightarrow> state" where
  "setUserAvatar imgfile toastPersonaNameChange s =
    emit SaveSettingsDebounced
      (selectCurrentPersona toastPersonaNameChange (s\<lparr>user_avatar := imgfile\<rparr>))"

section \<open>Connections of the current character or group\<close>

text \<open>
  \<^verbatim>\<open>getConnectedPersonas()\<close> called without a character key, as the resolution does: the key
  is \<^verbatim>\<open>selected_group || characters[this_chid]?.avatar\<close>.
\<close>

definition getConnectedPersonas :: "chat_context \<Rightarrow> state \<Rightarrow> string list" where
  "getConnectedPersonas ctx s =
    (let characterKey = (if truthy (selected_group ctx) then selected_group ctx
                         else character_avatar ctx)
     in map fst
          (filter
             (\<lambda>entry. case connections (snd entry) of
                         None \<Rightarrow> False
                       | Some cs \<Rightarrow>
                           list_ex (\<lambda>conn. conn_type conn = Character
                                            \<and> Some (conn_id conn) = characterKey) cs)
             (persona_descriptions s)))"

text \<open>
  How the user leaves the selection popup: by clicking the persona at an index of the
  offered list (popup result \<open>100 + index\<close>), by the button "Remove All Connections" (offered
  only for a targeted character or group), or without a choice.
\<close>

datatype popup_result = PersonaChosen nat | RemoveAllConnections | Dismissed

definition removeAllConnections :: "PersonaConnection \<Rightarrow> state \<Rightarrow> state" where
  "removeAllConnections targetedChar s =
    notify (ToastInfo ''Personas Unlocked'')
      (emit SaveSettingsDebounced
         (s\<lparr>persona_descriptions :=
              map (\<lambda>entry.
                     case connections (snd entry) of
                       None \<Rightarrow> entry
                     | Some cs \<Rightarrow>
                         (fst entry,
                          (snd entry)\<lparr>connections :=
                             Some (filter (\<lambda>c. \<not> (conn_type targetedChar = conn_type c
                                                     \<and> conn_id targetedChar = conn_id c)) cs)\<rparr>))
                (persona_descriptions s)\<rparr>))"

definition askForPersonaSelection ::
  "string list \<Rightarrow> PersonaConnection option \<Rightarrow> popup_result \<Rightarrow> state \<Rightarrow> string option \<times> state" where
  "askForPersonaSelection personaList targetedChar answer s0 =
    (let s = emit (PersonaSelectionPopup personaList) s0 in
     case answer of
       PersonaChosen i \<Rightarrow> (if i < length personaList then Some (personaList ! i) else None, s)
     | RemoveAllConnections \<Rightarrow>
         (case targetedChar of
            None \<Rightarrow> (None, s)
          | Some t \<Rightarrow> (None, removeAllConnections t s))
     | Dismissed \<Rightarrow> (None, s))"

section \<open>Persona resolution: \<^verbatim>\<open>loadPersonaForCurrentChat\<close>\<close>

text \<open>
  The locals of \<^verbatim>\<open>loadPersonaForCurrentChat\<close> together with the globals. \<open>userAvatars\<close> is
  what \<^verbatim>\<open>getUserAvatars\<close> returned: the avatar list of the server, or \<^verbatim>\<open>undefined\<close> (\<open>None\<close>)
  when the request failed, in which case \<^verbatim>\<open>userAvatars.includes\<close> throws.
\<close>

record resolution =
  chatPersona :: "string option"
  connectType :: "string option"
  store :: state

definition chatLockStep :: "string list option \<Rightarrow> resolution \<Rightarrow> error \<times> state + resolution" where
  "chatLockStep userAvatars r =
    (let s = store r in
     if truthy (chat_persona s) then
       (case userAvatars of
          None \<Rightarrow> Inl (TypeError, s)
        | Some avatars \<Rightarrow>
            if the (chat_persona s) \<notin> set avatars
            then Inr (r\<lparr>chatPersona := Some [],
                       store := emit SaveSettingsDebounced
                                  (emit (ConsoleWarn ''Chat-locked persona avatar not found, unlocking persona'')
                                     s\<lparr>chat_persona := None\<rparr>)\<rparr>)
            else Inr (r\<lparr>chatPersona := chat_persona s, connectType := Some ''chat''\<rparr>))
     else Inr r)"

definition connectionStep :: "chat_context \<Rightarrow> popup_result \<Rightarrow> resolution \<Rightarrow> resolution" where
  "connectionStep ctx answer r =
    (if truthy (chatPersona r) then r
     else
       let s = store r;
           connectedPersonas = getConnectedPersonas ctx s;
           r1 = (if length connectedPersonas > 0 then
                   (if length connectedPersonas = 1
                    then r\<lparr>chatPersona := Some (connectedPersonas ! 0)\<rparr>
                    else if \<not> persona_allow_multi_connections s
                    then r\<lparr>chatPersona := Some (connectedPersonas ! 0),
                           store := emit (ConsoleWarn ''More than one persona is connected to this character.Using the first available persona for this chat.'') s\<rparr>
                    else (case askForPersonaSelection connectedPersonas
                                 (getCurrentConnectionObj ctx) answer s of
                            (chosen, s') \<Rightarrow> r\<lparr>chatPersona := chosen, store := s'\<rparr>))
                 else r)
       in if truthy (chatPersona r1) then r1\<lparr>connectType := Some ''character''\<rparr> else r1)"

definition defaultStep :: "resolution \<Rightarrow> resolution" where
  "defaultStep r =
    (if \<not> truthy (chatPersona r) \<and> truthy (default_persona (store r))
     then r\<lparr>chatPersona := default_persona (store r), connectType := Some ''default''\<rparr>
     else r)"

definition clearMissingChatLock :: "string list option \<Rightarrow> resolution \<Rightarrow> error \<times> state + resolution" where
  "clearMissingChatLock userAvatars r =
    (let s = store r in
     if truthy (chat_persona s) then
       (case userAvatars of
          None \<Rightarrow> Inl (TypeError, s)
        | Some avatars \<Rightarrow>
            if the (chat_persona s) \<notin> set avatars
            then Inr (r\<lparr>store := (emit (ConsoleWarn ''Persona avatar not found, unlocking persona'') s)
                                    \<lparr>chat_persona := None\<rparr>\<rparr>)
            else Inr r)
     else Inr r)"

definition clearMissingDefault :: "string list option \<Rightarrow> resolution \<Rightarrow> error \<times> state + resolution" where
  "clearMissingDefault userAvatars r =
    (let s = store r in
     if truthy (default_persona s) then
       (case userAvatars of
          None \<Rightarrow> Inl (TypeError, s)
        | Some avatars \<Rightarrow>
            if the (default_persona s) \<notin> set avatars
            then Inr (r\<lparr>store := emit SaveSettingsDebounced
                                    ((emit (ConsoleWarn ''Default persona avatar not found, clearing default persona'') s)
                                       \<lparr>default_persona := None\<rparr>)\<rparr>)
            else Inr r)
     else Inr r)"

definition selectStep :: "resolution \<Rightarrow> resolution" where
  "selectStep r =
    (if truthy (chatPersona r)
     then r\<lparr>store := notify (ToastSuccess ''Persona Auto Selected'')
                        (setUserAvatar (the (chatPersona r)) False (store r))\<rparr>
     else r)"

definition loadPersonaForCurrentChat ::
  "string list option \<Rightarrow> popup_result \<Rightarrow> chat_context \<Rightarrow> state \<Rightarrow> error \<times> state + resolution" where
  "loadPersonaForCurrentChat userAvatars answer ctx s =
    (case chatLockStep userAvatars \<lparr>chatPersona = Some [], connectType = None, store = s\<rparr> of
       Inl e \<Rightarrow> Inl e
     | Inr r1 \<Rightarrow>
         (case clearMissingChatLock userAvatars (defaultStep (connectionStep ctx answer r1)) of
            Inl e \<Rightarrow> Inl e
          | Inr r2 \<Rightarrow>
              (case clearMissingDefault userAvatars r2 of
                 Inl e \<Rightarrow> Inl e
               | Inr r3 \<Rightarrow> Inr (selectStep r3))))"

section \<open>Deleting a persona: \<^verbatim>\<open>deleteUserAvatar\<close>\<close>

text \<open>
  What \<^verbatim>\<open>deleteUserAvatar\<close> does to the stores once the server has deleted the avatar,
  before it hands over to \<^verbatim>\<open>loadPersonaForCurrentChat\<close>.
\<close>

definition deletePersonaEntries :: "string \<Rightarrow> state \<Rightarrow> state" where
  "deletePersonaEntries avatarId s =
    (let s1 = s\<lparr>personas := AList.delete avatarId (personas s),
                 persona_descriptions := AList.delete avatarId (persona_descriptions s)\<rparr>;
         s2 = (if Some avatarId = default_persona s1
               then (emit (ToastWarning ''Default Persona Deleted'') s1)\<lparr>default_persona := None\<rparr>
               else s1);
         s3 = (if Some avatarId = chat_persona s2
               then emit SaveMetadata
                      ((emit (ToastWarning ''Persona Deleted'') s2)\<lparr>chat_persona := None\<rparr>)
               else s2)
     in emit SaveSettingsDebounced s3)"

text \<open>
  \<open>confirm\<close> is the user's answer to the confirmation popup, \<open>requestOk\<close> whether the server
  accepted the deletion; the other arguments are those of the resolution that follows.
\<close>

definition deleteUserAvatar ::
  "bool \<Rightarrow> bool \<Rightarrow> string list option \<Rightarrow> popup_result \<Rightarrow> chat_context \<Rightarrow> state
     \<Rightarrow> error \<times> state + state" where
  "deleteUserAvatar confirm requestOk userAvatars answer ctx s =
    (let avatarId = user_avatar s in
     if avatarId = [] then Inr (emit (ConsoleWarn ''No avatar id found'') s)
     else if \<not> confirm then Inr s
     else if requestOk then
       map_sum id store
         (loadPersonaForCurrentChat userAvatars answer ctx (deletePersonaEntries avatarId s))
     else Inr s)"

section \<open>Backup restore: \<^verbatim>\<open>onPersonasRestoreInput\<close>\<close>

text \<open>
  The parsed backup file \<^verbatim>\<open>{ personas, persona_descriptions, default_persona }\<close>; a property
  that is absent or not an object is \<open>None\<close>.
\<close>

record backup =
  backup_personas :: "(string \<times> string) list option"
  backup_persona_descriptions :: "(string \<times> descriptor) list option"
  backup_default_persona :: "string option"

datatype restore_file = NoFileSelected | Unparsable | Parsed backup

text \<open>
  The lines of the restore report, one constructor for each message of the source:
  \<^verbatim>\<open>Persona "key" (value) already exists, skipping\<close>,
  \<^verbatim>\<open>Persona image "key" (value) is missing, uploading default avatar\<close>,
  \<^verbatim>\<open>Persona description for "key" (name) already exists, skipping\<close>,
  \<^verbatim>\<open>Persona for "key" does not exist, skipping\<close> and
  \<^verbatim>\<open>Default persona "key" does not exist, skipping\<close>.
\<close>

datatype restore_warning =
    PersonaAlreadyExists string string
  | PersonaImageMissing string string
  | DescriptionAlreadyExists string "string option"
  | PersonaDoesNotExist string
  | DefaultPersonaDoesNotExist string

fun restorePersonas ::
  "string list option \<Rightarrow> (string \<times> string) list \<Rightarrow> restore_warning list \<Rightarrow> state
     \<Rightarrow> error \<times> state + restore_warning list \<times> state" where
  "restorePersonas avatarsList [] warnings s = Inr (warnings, s)"
| "restorePersonas avatarsList (entry # rest) warnings s =
    (let key = fst entry; val = snd entry in
     if map_of (personas s) key \<noteq> None
     then restorePersonas avatarsList rest (warnings @ [PersonaAlreadyExists key val]) s
     else
       let s1 = s\<lparr>personas := AList.update key val (personas s)\<rparr> in
       case avatarsList of
         None \<Rightarrow> Inl (TypeError, s1)
       | Some avatars \<Rightarrow>
           if key \<notin> set avatars
           then restorePersonas avatarsList rest (warnings @ [PersonaImageMissing key val])
                  (emit (UploadUserAvatar key) s1)
           else restorePersonas avatarsList rest warnings s1)"

fun restoreDescriptions ::
  "(string \<times> descriptor) list \<Rightarrow> restore_warning list \<Rightarrow> state \<Rightarrow> restore_warning list \<times> state" where
  "restoreDescriptions [] warnings s = (warnings, s)"
| "restoreDescriptions (entry # rest) warnings s =
    (let key = fst entry; val = snd entry in
     if map_of (persona_descriptions s) key \<noteq> None
     then restoreDescriptions rest
            (warnings @ [DescriptionAlreadyExists key (map_of (personas s) key)]) s
     else if \<not> truthy (map_of (personas s) key)
     then restoreDescriptions rest (warnings @ [PersonaDoesNotExist key]) s
     else restoreDescriptions rest warnings
            (s\<lparr>persona_descriptions := AList.update key val (persona_descriptions s)\<rparr>))"

definition restoreDefault ::
  "string option \<Rightarrow> restore_warning list \<Rightarrow> state \<Rightarrow> restore_warning list \<times> state" where
  "restoreDefault backupDefault warnings s =
    (if truthy backupDefault then
       (if map_of (personas s) (the backupDefault) \<noteq> None
        then (warnings, s\<lparr>default_persona := backupDefault\<rparr>)
        else (warnings @ [DefaultPersonaDoesNotExist (the backupDefault)], s))
     else (warnings, s))"

definition restoreReport :: "restore_warning list \<Rightarrow> state \<Rightarrow> state" where
  "restoreReport warnings s =
    emit SaveSettingsDebounced
      (setPersonaDescription
         (if warnings \<noteq> []
          then emit (ConsoleWarn ''PERSONA RESTORE REPORT'')
                 (emit (ToastSuccess ''Persona Management'') s)
          else emit (ToastSuccess ''Persona Management'') s))"

text \<open>\<open>avatarsList\<close> is what \<^verbatim>\<open>getUserAvatars(false)\<close> returned.\<close>

definition onPersonasRestoreInput ::
  "restore_file \<Rightarrow> string list option \<Rightarrow> state
     \<Rightarrow> error \<times> state + restore_warning list \<times> state" where
  "onPersonasRestoreInput file avatarsList s =
    (case file of
       NoFileSelected \<Rightarrow> Inr ([], s)
     | Unparsable \<Rightarrow> Inr ([], emit (ToastWarning ''Persona Management'') s)
     | Parsed data \<Rightarrow>
         (case (backup_personas data, backup_persona_descriptions data) of
            (Some dataPersonas, Some dataDescriptions) \<Rightarrow>
              (case restorePersonas avatarsList dataPersonas [] s of
                 Inl e \<Rightarrow> Inl e
               | Inr (warnings1, s1) \<Rightarrow>
                   (case restoreDescriptions dataDescriptions warnings1 s1 of
                      (warnings2, s2) \<Rightarrow>
                        (case restoreDefault (backup_default_persona data) warnings2 s2 of
                           (warnings, s3) \<Rightarrow> Inr (warnings, restoreReport warnings s3))))
          | _ \<Rightarrow> Inr ([], emit (ToastWarning ''Persona Management'') s)))"

section \<open>Duplicating a persona: \<^verbatim>\<open>duplicatePersona\<close>\<close>

text \<open>The decimal digits of \<^verbatim>\<open>Date.now()\<close> in a template string.\<close>

fun decimal :: "nat \<Rightarrow> string" where
  "decimal n =
    (if n < 10 then [''0123456789'' ! n]
     else decimal (n div 10) @ [''0123456789'' ! (n mod 10)])"

text \<open>\<^verbatim>\<open>personaName.replace(/[^a-zA-Z0-9]/g, '')\<close>\<close>

definition alphanumeric :: "string \<Rightarrow> string" where
  "alphanumeric personaName =
    filter (\<lambda>c. c \<in> set (''abcdefghijklmnopqrstuvwxyz'' @ ''ABCDEFGHIJKLMNOPQRSTUVWXYZ''
                            @ ''0123456789'')) personaName"

definition newAvatarId :: "nat \<Rightarrow> string \<Rightarrow> string" where
  "newAvatarId now personaName = decimal now @ ''-'' @ alphanumeric personaName @ ''.png''"

text \<open>
  \<open>confirm\<close> is the user's answer to the confirmation popup and \<open>now\<close> the value of
  \<^verbatim>\<open>Date.now()\<close>.
\<close>

definition duplicatePersona :: "string \<Rightarrow> bool \<Rightarrow> nat \<Rightarrow> state \<Rightarrow> state" where
  "duplicatePersona avatarId confirm now s =
    (let personaName = map_of (personas s) avatarId in
     if \<not> truthy personaName then emit (ToastWarning ''Persona Management'') s
     else if \<not> confirm then s
     else
       let newId = newAvatarId now (the personaName);
           descriptor = map_of (persona_descriptions s) avatarId
       in emit SaveSettingsDebounced
            (emit (UploadUserAvatar newId)
               (s\<lparr>personas := AList.update newId (the personaName) (personas s),
                  persona_descriptions :=
                    AList.update newId
                      \<lparr>description = Some (nullish (Option.bind descriptor description) []),
                       position = Some (nullish (Option.bind descriptor position) IN_PROMPT),
                       depth = Some (nullish (Option.bind descriptor depth) DEFAULT_DEPTH),
                       role = Some (nullish (Option.bind descriptor role) DEFAULT_ROLE),
                       lorebook = Some (nullish (Option.bind descriptor lorebook) []),
                       connections = None\<rparr>
                      (persona_descriptions s)\<rparr>)))"

section \<open>Who holds a connection\<close>

text \<open>
  A descriptor holds the connection \<open>c\<close> when its connection list contains it; \<open>holders\<close> lists
  the personas that do, in store order.
\<close>

definition holds :: "PersonaConnection \<Rightarrow> descriptor \<Rightarrow> bool" where
  "holds c d \<longleftrightarrow> c \<in> set (nullish (connections d) [])"

definition holders :: "state \<Rightarrow> PersonaConnection \<Rightarrow> string list" where
  "holders s c =
    map fst (filter (\<lambda>entry. holds c (snd entry)) (persona_descriptions s))"

section \<open>Example states\<close>

definition blankState :: state where
  "blankState =
    \<lparr>personas = [], persona_descriptions = [], default_persona = None,
     persona_description = [], persona_description_position = IN_PROMPT,
     persona_description_depth = 2, persona_description_role = 0,
     persona_description_lorebook = [],
     persona_allow_multi_connections = False, persona_auto_lock = False,
     persona_show_notifications = False,
     user_avatar = ''alice.png'', name1 = ''Alice'', chat_persona = None, events = []\<rparr>"

definition plainDescriptor :: "string \<Rightarrow> PersonaConnection list \<Rightarrow> descriptor" where
  "plainDescriptor text cs =
    \<lparr>description = Some text, position = Some IN_PROMPT, depth = Some 2, role = Some 0,
     lorebook = Some [], connections = Some cs\<rparr>"

text \<open>A chat with the character \<^verbatim>\<open>seraphina.png\<close>, and a group chat.\<close>

definition characterChat :: chat_context where
  "characterChat = \<lparr>selected_group = None, character_avatar = Some ''seraphina.png''\<rparr>"

definition groupChat :: chat_context where
  "groupChat = \<lparr>selected_group = Some ''group-1'', character_avatar = None\<rparr>"

text \<open>Alice is connected to Seraphina; Bob is the selected persona.\<close>

definition aliceAndBob :: state where
  "aliceAndBob =
    blankState
      \<lparr>personas := [(''alice.png'', ''Alice''), (''bob.png'', ''Bob'')],
       persona_descriptions :=
         [(''alice.png'', plainDescriptor ''A'' [PersonaConnection Character ''seraphina.png'']),
          (''bob.png'', plainDescriptor ''B'' [])],
       user_avatar := ''bob.png'', name1 := ''Bob''\<rparr>"

text \<open>
  The default persona points to an avatar that the server no longer has; in \<open>danglingLocks\<close>
  the chat lock does so too.
\<close>

definition danglingDefault :: state where
  "danglingDefault =
    blankState
      \<lparr>personas := [(''alice.png'', ''Alice'')],
       persona_descriptions := [(''alice.png'', plainDescriptor ''A'' [])],
       default_persona := Some ''gone.png''\<rparr>"

definition danglingLocks :: state where
  "danglingLocks = danglingDefault\<lparr>chat_persona := Some ''old.png''\<rparr>"

text \<open>Alice and Bob are both connected to Seraphina; another avatar is selected.\<close>

definition bothConnected :: state where
  "bothConnected =
    blankState
      \<lparr>personas := [(''alice.png'', ''Alice''), (''bob.png'', ''Bob'')],
       persona_descriptions :=
         [(''alice.png'', plainDescriptor ''A'' [PersonaConnection Character ''seraphina.png'']),
          (''bob.png'', plainDescriptor ''B'' [PersonaConnection Character ''seraphina.png''])],
       user_avatar := ''carol.png'', name1 := ''Carol''\<rparr>"

text \<open>Alice is connected to the group, as \<^verbatim>\<open>lockPersona('character')\<close> does in a group chat.\<close>

definition lockedToGroup :: state where
  "lockedToGroup =
    blankState
      \<lparr>personas := [(''alice.png'', ''Alice'')],
       persona_descriptions :=
         [(''alice.png'', plainDescriptor ''A'' [PersonaConnection Group ''group-1''])],
       user_avatar := ''bob.png'', name1 := ''Bob''\<rparr>"

text \<open>Alice and Bob are both connected to the group; another avatar is selected.\<close>

definition bothLockedToGroup :: state where
  "bothLockedToGroup =
    blankState
      \<lparr>personas := [(''alice.png'', ''Alice''), (''bob.png'', ''Bob'')],
       persona_descriptions :=
         [(''alice.png'', plainDescriptor ''A'' [PersonaConnection Group ''group-1'']),
          (''bob.png'', plainDescriptor ''B'' [PersonaConnection Group ''group-1''])],
       user_avatar := ''carol.png'', name1 := ''Carol''\<rparr>"

text \<open>Alice is the selected persona, the default persona and the persona locked to the chat.\<close>

definition aliceEverywhere :: state where
  "aliceEverywhere =
    aliceAndBob
      \<lparr>user_avatar := ''alice.png'', name1 := ''Alice'',
       default_persona := Some ''alice.png'', chat_persona := Some ''alice.png''\<rparr>"

text \<open>A store to restore into, and a backup file.\<close>

definition restoreTarget :: state where
  "restoreTarget =
    blankState
      \<lparr>personas := [(''alice.png'', ''Alice'')],
       persona_descriptions := [(''alice.png'', plainDescriptor ''A'' [])],
       default_persona := Some ''alice.png''\<rparr>"

definition exampleBackup :: backup where
  "exampleBackup =
    \<lparr>backup_personas = Some [(''alice.png'', ''Alicia''), (''bob.png'', ''Bob'')],
     backup_persona_descriptions =
       Some [(''alice.png'', plainDescriptor ''other'' []),
             (''bob.png'', plainDescriptor ''B'' []),
             (''ghost.png'', plainDescriptor ''G'' [])],
     backup_default_persona = Some ''bob.png''\<rparr>"

section \<open>Observations\<close>

text \<open>The selection popups among the reported events.\<close>

fun is_popup :: "event \<Rightarrow> bool" where
  "is_popup (PersonaSelectionPopup offered) = True"
| "is_popup e = False"

definition popups :: "state \<Rightarrow> event list" where
  "popups s = filter is_popup (events s)"

text \<open>
  The globals an operation leaves behind, whether it returned or threw, and what a resolution
  selected: \<^verbatim>\<open>chatPersona\<close>, \<^verbatim>\<open>connectType\<close> and the resulting \<^verbatim>\<open>user_avatar\<close>.
\<close>

definition outcomeStore :: "error \<times> state + resolution \<Rightarrow> state" where
  "outcomeStore outcome = (case outcome of Inl failure \<Rightarrow> snd failure | Inr r \<Rightarrow> store r)"

definition finalState :: "error \<times> state + state \<Rightarrow> state" where
  "finalState outcome = (case outcome of Inl failure \<Rightarrow> snd failure | Inr s \<Rightarrow> s)"

definition selection ::
  "error \<times> state + resolution \<Rightarrow> error + string option \<times> string option \<times> string" where
  "selection outcome =
    map_sum fst (\<lambda>r. (chatPersona r, connectType r, user_avatar (store r))) outcome"

text \<open>Restoring the same file a second time, into the store the first restore left.\<close>

definition restoreTwice ::
  "restore_file \<Rightarrow> string list option \<Rightarrow> state \<Rightarrow> error \<times> state + restore_warning list \<times> state" where
  "restoreTwice file avatarsList s =
    (case onPersonasRestoreInput file avatarsList s of
       Inl failure \<Rightarrow> Inl failure
     | Inr first \<Rightarrow> onPersonasRestoreInput file avatarsList (snd first))"

definition restoredWarnings ::
  "error \<times> state + restore_warning list \<times> state \<Rightarrow> error + restore_warning list" where
  "restoredWarnings outcome = map_sum fst fst outcome"

definition restoredDefault ::
  "error \<times> state + restore_warning list \<times> state \<Rightarrow> error + string option" where
  "restoredDefault outcome = map_sum fst (default_persona \<circ> snd) outcome"

text \<open>
  What an operation that runs after a persona \<open>a\<close> was deleted may do to the globals: the
  names stay, the default persona is kept or cleared, no descriptor appears for an avatar
  without a name, and the chat lock is kept, cleared or set by the auto-lock to a persona
  that has a name.
\<close>

definition follows :: "string \<Rightarrow> state \<Rightarrow> state \<Rightarrow> bool" where
  "follows a s s' \<longleftrightarrow>
     personas s' = personas s
   \<and> persona_auto_lock s' = persona_auto_lock s
   \<and> (default_persona s' = None \<or> default_persona s' = default_persona s)
   \<and> (map_of (personas s) a = None \<and> map_of (persona_descriptions s) a = None
        \<longrightarrow> map_of (persona_descriptions s') a = None)
   \<and> (chat_persona s' = chat_persona s \<or> chat_persona s' = None
        \<or> (persona_auto_lock s
            \<and> Option.bind (chat_persona s') (map_of (personas s)) \<noteq> None))
   \<and> set (events s) \<subseteq> set (events s')"

section \<open>Basic facts\<close>


lemma current_connection_locked:
  "getCurrentConnectionObj ctx = Some new \<Longrightarrow> isPersonaConnectionLocked ctx c \<longleftrightarrow> c = new"
  by (cases c) (auto simp: getCurrentConnectionObj_def isPersonaConnectionLocked_def
      split: option.splits if_splits)

lemma filter_same_length:
  assumes "length (filter P xs) = length xs" and "x \<in> set xs"
  shows "P x"
proof -
  have "length (filter P xs) + length (filter (\<lambda>y. \<not> P y) xs) = length xs"
    by (rule sum_length_filter_compl)
  with assms(1) have "filter (\<lambda>y. \<not> P y) xs = []" by simp
  with assms(2) show ?thesis by (simp add: filter_empty_conv)
qed


lemma unlinkOther_key [simp]: "fst (unlinkOther u new entry) = fst entry"
  by (simp add: unlinkOther_def Let_def)

lemma unlinkOther_self [simp]: "unlinkOther u new (u, d) = (u, d)"
  by (simp add: unlinkOther_def)

lemma unlinkOther_removes:
  "fst entry \<noteq> u \<Longrightarrow> \<not> holds new (snd (unlinkOther u new entry))"
  by (cases new)
     (auto simp: unlinkOther_def Let_def holds_def nullish_def
       split: option.splits dest: filter_same_length)

lemma unlinkOther_keeps:
  "k \<noteq> new \<Longrightarrow> holds k (snd (unlinkOther u new entry)) \<longleftrightarrow> holds k (snd entry)"
  by (cases new; cases k)
     (auto simp: unlinkOther_def Let_def holds_def nullish_def split: option.splits)

lemma unlinked_hold_nothing:
  "u \<notin> fst ` set ds \<Longrightarrow> filter (\<lambda>entry. holds new (snd entry)) (map (unlinkOther u new) ds) = []"
  by (induction ds) (auto simp: unlinkOther_removes)

lemma only_holder_after_unlink:
  "distinct (map fst ds) \<Longrightarrow> holds new d \<Longrightarrow>
   map fst (filter (\<lambda>entry. holds new (snd entry)) (map (unlinkOther u new) (AList.update u d ds)))
     = [u]"
proof (induction ds)
  case Nil
  then show ?case by simp
next
  case (Cons e ds)
  show ?case
  proof (cases "fst e = u")
    case True
    with Cons.prems have "u \<notin> fst ` set ds" by auto
    with True Cons.prems show ?thesis
      by (simp add: unlinked_hold_nothing)
  next
    case False
    with Cons show ?thesis
      by (simp add: unlinkOther_removes)
  qed
qed

lemma other_holders_after_unlink:
  "k \<noteq> new \<Longrightarrow>
   map fst (filter (\<lambda>entry. holds k (snd entry)) (map (unlinkOther u new) ds))
     = map fst (filter (\<lambda>entry. holds k (snd entry)) ds)"
  by (induction ds) (auto simp: unlinkOther_keeps)

lemma update_holders_le:
  "(P d' \<Longrightarrow> \<exists>d. map_of ds u = Some d \<and> P d) \<Longrightarrow>
   length (filter (\<lambda>entry. P (snd entry)) (AList.update u d' ds))
     \<le> length (filter (\<lambda>entry. P (snd entry)) ds)"
  by (induction ds) (auto split: if_splits)


lemma emit_fields [simp]:
  "personas (emit e s) = personas s"
  "persona_descriptions (emit e s) = persona_descriptions s"
  "default_persona (emit e s) = default_persona s"
  "chat_persona (emit e s) = chat_persona s"
  "user_avatar (emit e s) = user_avatar s"
  "name1 (emit e s) = name1 s"
  "persona_allow_multi_connections (emit e s) = persona_allow_multi_connections s"
  "persona_auto_lock (emit e s) = persona_auto_lock s"
  "persona_show_notifications (emit e s) = persona_show_notifications s"
  "events (emit e s) = events s @ [e]"
  by (simp_all add: emit_def)

lemma notify_fields [simp]:
  "personas (notify e s) = personas s"
  "persona_descriptions (notify e s) = persona_descriptions s"
  "default_persona (notify e s) = default_persona s"
  "chat_persona (notify e s) = chat_persona s"
  "user_avatar (notify e s) = user_avatar s"
  "name1 (notify e s) = name1 s"
  "persona_allow_multi_connections (notify e s) = persona_allow_multi_connections s"
  "persona_auto_lock (notify e s) = persona_auto_lock s"
  "persona_show_notifications (notify e s) = persona_show_notifications s"
  by (simp_all add: notify_def)

lemma createMissingPersona_fields [simp]:
  "user_avatar (createMissingPersona s) = user_avatar s"
  "name1 (createMissingPersona s) = name1 s"
  "persona_allow_multi_connections (createMissingPersona s) = persona_allow_multi_connections s"
  "default_persona (createMissingPersona s) = default_persona s"
  "chat_persona (createMissingPersona s) = chat_persona s"
  by (simp_all add: createMissingPersona_def)

lemma createMissingPersona_descriptions:
  "persona_descriptions (createMissingPersona s) =
     (if map_of (personas s) (user_avatar s) \<noteq> None then persona_descriptions s
      else AList.update (user_avatar s)
             \<lparr>description = Some [], position = Some IN_PROMPT,
              depth = Some DEFAULT_DEPTH, role = Some DEFAULT_ROLE,
              lorebook = Some [], connections = Some []\<rparr>
             (persona_descriptions s))"
  by (simp add: createMissingPersona_def)


lemma map_of_unlinkOther_self:
  "map_of (map (unlinkOther u new) ds) u = map_of ds u"
  by (induction ds) (auto simp: unlinkOther_def Let_def)

lemma createMissingPersona_unbound:
  assumes "map_of (personas s) (user_avatar s) = None"
  shows "map_of (personas (createMissingPersona s)) (user_avatar s) = Some (name1 s)"
    and "map_of (persona_descriptions (createMissingPersona s)) (user_avatar s) =
           Some \<lparr>description = Some [], position = Some IN_PROMPT,
                  depth = Some DEFAULT_DEPTH, role = Some DEFAULT_ROLE,
                  lorebook = Some [], connections = Some []\<rparr>"
  using assms by (simp_all add: createMissingPersona_def update_conv')

lemma toggleDefaultPersona_stores [simp]:
  "personas (toggleDefaultPersona a q c s) = personas s"
  "persona_descriptions (toggleDefaultPersona a q c s) = persona_descriptions s"
  by (simp_all add: toggleDefaultPersona_def)

section \<open>Unknown lock types\<close>

text \<open>
  Claim C8. An argument other than \<^verbatim>\<open>'chat'\<close>, \<^verbatim>\<open>'character'\<close> and \<^verbatim>\<open>'default'\<close> makes the
  lock-state query, the lock and the unlock operation (and the two operations built on
  them) throw \<^verbatim>\<open>Unknown persona lock type\<close>; none of them returns a value. The lock
  operation throws after it has made sure that the selected avatar is a persona.
\<close>

theorem unknown_lock_type_is_an_error:
  assumes "lockType \<noteq> ''chat''" "lockType \<noteq> ''character''" "lockType \<noteq> ''default''"
  shows "isPersonaLocked lockType ctx s = Inl (UnknownPersonaLockType lockType)
       \<and> lockPersona lockType ctx s = Inl (UnknownPersonaLockType lockType, createMissingPersona s)
       \<and> unlockPersona lockType ctx s = Inl (UnknownPersonaLockType lockType, s)
       \<and> setPersonaLockState b lockType ctx s
           = Inl (UnknownPersonaLockType lockType, if b then createMissingPersona s else s)
       \<and> togglePersonaLock lockType ctx s = Inl (UnknownPersonaLockType lockType, s)"
  using assms
  by (simp add: isPersonaLocked_def lockPersona_def unlockPersona_def
        setPersonaLockState_def togglePersonaLock_def)

theorem unknown_lock_type_is_an_error_witness:
  "isPersonaLocked ''group'' groupChat aliceAndBob = Inl (UnknownPersonaLockType ''group'')
   \<and> lockPersona ''group'' groupChat aliceAndBob
       = Inl (UnknownPersonaLockType ''group'', createMissingPersona aliceAndBob)
   \<and> unlockPersona ''group'' groupChat aliceAndBob
       = Inl (UnknownPersonaLockType ''group'', aliceAndBob)
   \<and> setPersonaLockState False ''group'' groupChat aliceAndBob
       = Inl (UnknownPersonaLockType ''group'', aliceAndBob)
   \<and> togglePersonaLock ''group'' groupChat aliceAndBob
       = Inl (UnknownPersonaLockType ''group'', aliceAndBob)"
  using unknown_lock_type_is_an_error [of "''group''" groupChat aliceAndBob False]
  by simp

section \<open>Locking an avatar that is not a persona yet\<close>

text \<open>
  Claim C9. When the selected avatar has no entry in \<^verbatim>\<open>power_user.personas\<close>, a lock of any
  of the three types returns normally, and afterwards the avatar is a persona: its name is the
  current user name and its descriptor has the empty description, position in-prompt,
  depth 2, role 0 and no lorebook. The persona is created with an empty connection list; a
  lock of type \<^verbatim>\<open>'character'\<close> then puts the connection of the open character or group, if
  there is one, into it.
\<close>

theorem lockPersona_creates_missing_persona:
  assumes unbound: "map_of (personas s) (user_avatar s) = None"
    and valid: "lockType = ''chat'' \<or> lockType = ''character'' \<or> lockType = ''default''"
  shows "\<exists>s' d. lockPersona lockType ctx s = Inr s'
           \<and> map_of (personas s') (user_avatar s) = Some (name1 s)
           \<and> map_of (persona_descriptions s') (user_avatar s) = Some d
           \<and> description d = Some [] \<and> position d = Some IN_PROMPT
           \<and> depth d = Some 2 \<and> role d = Some 0 \<and> lorebook d = Some []
           \<and> connections d =
               Some (if lockType = ''character''
                     then (case getCurrentConnectionObj ctx of None \<Rightarrow> [] | Some c \<Rightarrow> [c])
                     else [])"
proof -
  note c = createMissingPersona_unbound [OF unbound]
  from valid consider "lockType = ''chat''" | "lockType = ''character''" | "lockType = ''default''"
    by blast
  then show ?thesis
  proof cases
    case 1
    then show ?thesis
      by (simp add: lockPersona_def Let_def c DEFAULT_DEPTH_def DEFAULT_ROLE_def)
  next
    case 2
    then show ?thesis
      by (cases "getCurrentConnectionObj ctx")
        (simp_all add: lockPersona_def Let_def lockPersonaToCharacter_def c
          DEFAULT_DEPTH_def DEFAULT_ROLE_def update_conv' map_of_unlinkOther_self)
  next
    case 3
    then show ?thesis
      by (simp add: lockPersona_def Let_def c DEFAULT_DEPTH_def DEFAULT_ROLE_def)
  qed
qed

theorem lockPersona_creates_missing_persona_witness:
  "map_of (personas blankState) (user_avatar blankState) = None
   \<and> (\<exists>s' d. lockPersona ''character'' groupChat blankState = Inr s'
         \<and> map_of (personas s') ''alice.png'' = Some ''Alice''
         \<and> map_of (persona_descriptions s') ''alice.png'' = Some d
         \<and> description d = Some [] \<and> position d = Some IN_PROMPT
         \<and> depth d = Some 2 \<and> role d = Some 0 \<and> lorebook d = Some []
         \<and> connections d = Some [PersonaConnection Group ''group-1''])"
  using lockPersona_creates_missing_persona [of blankState "''character''" groupChat]
  by (simp add: blankState_def groupChat_def getCurrentConnectionObj_def)

section \<open>Exclusive connections\<close>

text \<open>
  Claim C2. With multiple connections not allowed, locking the selected persona to the open
  character or group \<open>c\<close> leaves that persona as the only holder of \<open>c\<close>: the connection is
  removed from every other persona, so a persona it was bound to before loses it. If no
  connection had two holders before, none has two holders afterwards. (The lock needs the
  descriptor of the selected persona; the store lists every avatar id once.)
\<close>

theorem lock_to_character_is_exclusive:
  assumes multi: "\<not> persona_allow_multi_connections s"
    and keys: "distinct (map fst (persona_descriptions s))"
    and cur: "getCurrentConnectionObj ctx = Some c"
    and desc: "map_of (personas s) (user_avatar s) \<noteq> None
                 \<longrightarrow> map_of (persona_descriptions s) (user_avatar s) \<noteq> None"
  shows "\<exists>s'. lockPersona ''character'' ctx s = Inr s'
           \<and> holders s' c = [user_avatar s]
           \<and> ((\<forall>k. length (holders s k) \<le> 1) \<longrightarrow> (\<forall>k. length (holders s' k) \<le> 1))"
proof -
  define u where "u = user_avatar s"
  define s1 where "s1 = createMissingPersona s"
  define ds1 where "ds1 = persona_descriptions s1"
  have ds1: "ds1 = (if map_of (personas s) u \<noteq> None then persona_descriptions s
                    else AList.update u
                           \<lparr>description = Some [], position = Some IN_PROMPT,
                            depth = Some DEFAULT_DEPTH, role = Some DEFAULT_ROLE,
                            lorebook = Some [], connections = Some []\<rparr>
                           (persona_descriptions s))"
    by (simp add: ds1_def s1_def u_def createMissingPersona_descriptions)
  have dist1: "distinct (map fst ds1)"
    using keys by (simp add: ds1 distinct_update)
  have "\<exists>d. map_of ds1 u = Some d"
  proof (cases "map_of (personas s) u = None")
    case True
    then show ?thesis by (simp add: ds1 update_conv')
  next
    case False
    with desc show ?thesis by (auto simp: ds1 u_def)
  qed
  then obtain d where d: "map_of ds1 u = Some d" ..
  define kept where
    "kept = (case connections d of None \<Rightarrow> []
             | Some cs \<Rightarrow> filter (\<lambda>x. \<not> isPersonaConnectionLocked ctx x) cs)"
  define d' where "d' = d\<lparr>connections := Some (kept @ [c])\<rparr>"
  define ds3 where "ds3 = map (unlinkOther u c) (AList.update u d' ds1)"
  define s' where
    "s' = notify (ToastSuccess ''Persona Locked'')
            (emit SaveSettingsDebounced (s1\<lparr>persona_descriptions := ds3\<rparr>))"
  have s1: "user_avatar s1 = u" "\<not> persona_allow_multi_connections s1"
    using multi by (simp_all add: s1_def u_def)
  have "lockPersona ''character'' ctx s = lockPersonaToCharacter ctx s1"
    by (simp add: lockPersona_def s1_def)
  also have "\<dots> = Inr s'"
    using d cur s1
    by (simp add: lockPersonaToCharacter_def Let_def s'_def ds3_def d'_def kept_def ds1_def)
  finally have run: "lockPersona ''character'' ctx s = Inr s'" .
  have descs: "persona_descriptions s' = ds3"
    by (simp add: s'_def)
  have hold_c: "holds c d'"
    by (simp add: d'_def holds_def nullish_def)
  have only: "holders s' c = [u]"
    unfolding holders_def descs ds3_def
    by (rule only_holder_after_unlink [OF dist1 hold_c])
  have inv: "length (holders s' k) \<le> 1" if ex: "\<forall>k. length (holders s k) \<le> 1" for k
  proof (cases "k = c")
    case True
    with only show ?thesis by simp
  next
    case False
    have kept_sub: "holds k d' \<Longrightarrow> holds k d"
      using False by (auto simp: d'_def kept_def holds_def nullish_def split: option.splits)
    have "length (holders s' k)
            = length (filter (\<lambda>entry. holds k (snd entry)) (AList.update u d' ds1))"
      unfolding holders_def descs ds3_def
      using other_holders_after_unlink [OF False, of u "AList.update u d' ds1"]
      by (metis length_map)
    also have "\<dots> \<le> length (filter (\<lambda>entry. holds k (snd entry)) ds1)"
      by (rule update_holders_le) (use d kept_sub in blast)
    also have "\<dots> \<le> length (filter (\<lambda>entry. holds k (snd entry)) (persona_descriptions s))"
    proof (cases "map_of (personas s) u \<noteq> None")
      case True
      then show ?thesis by (simp add: ds1)
    next
      case False
      then have "ds1 = AList.update u
                           \<lparr>description = Some [], position = Some IN_PROMPT,
                            depth = Some DEFAULT_DEPTH, role = Some DEFAULT_ROLE,
                            lorebook = Some [], connections = Some []\<rparr>
                           (persona_descriptions s)"
        by (simp add: ds1)
      moreover have "\<not> holds k \<lparr>description = Some [], position = Some IN_PROMPT,
                            depth = Some DEFAULT_DEPTH, role = Some DEFAULT_ROLE,
                            lorebook = Some [], connections = Some []\<rparr>"
        by (simp add: holds_def nullish_def)
      ultimately show ?thesis
        by (simp only:) (rule update_holders_le, simp)
    qed
    also have "\<dots> = length (holders s k)"
      by (simp add: holders_def)
    also have "\<dots> \<le> 1" using ex by simp
    finally show ?thesis .
  qed
  from run only inv show ?thesis
    by (auto simp: u_def)
qed

theorem lock_to_character_is_exclusive_witness:
  "\<not> persona_allow_multi_connections aliceAndBob
   \<and> distinct (map fst (persona_descriptions aliceAndBob))
   \<and> getCurrentConnectionObj characterChat = Some (PersonaConnection Character ''seraphina.png'')
   \<and> holders aliceAndBob (PersonaConnection Character ''seraphina.png'') = [''alice.png'']
   \<and> (\<exists>s'. lockPersona ''character'' characterChat aliceAndBob = Inr s'
          \<and> holders s' (PersonaConnection Character ''seraphina.png'') = [''bob.png''])"
  using lock_to_character_is_exclusive
          [of aliceAndBob characterChat "PersonaConnection Character ''seraphina.png''"]
  by (auto simp: aliceAndBob_def blankState_def characterChat_def getCurrentConnectionObj_def
        holders_def holds_def nullish_def plainDescriptor_def)

section \<open>Facts about selecting a persona\<close>

lemma popups_emit [simp]: "popups (emit e s) = popups s @ (if is_popup e then [e] else [])"
  by (simp add: popups_def)

lemma popups_notify [simp]:
  "\<not> is_popup e \<Longrightarrow> popups (notify e s) = popups s"
  by (simp add: notify_def)

lemma events_notify: "set (events s) \<subseteq> set (events (notify e s))"
  by (auto simp: notify_def)

lemma popups_cong: "events s' = events s \<Longrightarrow> popups s' = popups s"
  by (simp add: popups_def)

lemma setPersonaDescription_fields [simp]:
  "personas (setPersonaDescription s) = personas s"
  "persona_descriptions (setPersonaDescription s) = persona_descriptions s"
  "default_persona (setPersonaDescription s) = default_persona s"
  "chat_persona (setPersonaDescription s) = chat_persona s"
  "user_avatar (setPersonaDescription s) = user_avatar s"
  "persona_auto_lock (setPersonaDescription s) = persona_auto_lock s"
  "persona_show_notifications (setPersonaDescription s) = persona_show_notifications s"
  "persona_allow_multi_connections (setPersonaDescription s) = persona_allow_multi_connections s"
  "events (setPersonaDescription s) = events s"
  by (simp_all add: setPersonaDescription_def)

lemma temporaryPersonaNotice_fields [simp]:
  "personas (temporaryPersonaNotice s) = personas s"
  "persona_descriptions (temporaryPersonaNotice s) = persona_descriptions s"
  "default_persona (temporaryPersonaNotice s) = default_persona s"
  "chat_persona (temporaryPersonaNotice s) = chat_persona s"
  "user_avatar (temporaryPersonaNotice s) = user_avatar s"
  "persona_auto_lock (temporaryPersonaNotice s) = persona_auto_lock s"
  "persona_show_notifications (temporaryPersonaNotice s) = persona_show_notifications s"
  "persona_allow_multi_connections (temporaryPersonaNotice s) = persona_allow_multi_connections s"
  by (simp_all add: temporaryPersonaNotice_def Let_def)

lemma temporaryPersonaNotice_events:
  "set (events s) \<subseteq> set (events (temporaryPersonaNotice s))"
  "popups (temporaryPersonaNotice s) = popups s"
  by (auto simp: temporaryPersonaNotice_def Let_def)

lemma setUserName_fields [simp]:
  "personas (setUserName n s) = personas s"
  "persona_descriptions (setUserName n s) = persona_descriptions s"
  "default_persona (setUserName n s) = default_persona s"
  "chat_persona (setUserName n s) = chat_persona s"
  "user_avatar (setUserName n s) = user_avatar s"
  "persona_auto_lock (setUserName n s) = persona_auto_lock s"
  "persona_show_notifications (setUserName n s) = persona_show_notifications s"
  "persona_allow_multi_connections (setUserName n s) = persona_allow_multi_connections s"
  "events (setUserName n s) = events s"
  by (simp_all add: setUserName_def)

lemma applyDescriptor_fields [simp]:
  "personas (applyDescriptor s) = personas s"
  "default_persona (applyDescriptor s) = default_persona s"
  "chat_persona (applyDescriptor s) = chat_persona s"
  "user_avatar (applyDescriptor s) = user_avatar s"
  "persona_auto_lock (applyDescriptor s) = persona_auto_lock s"
  "persona_show_notifications (applyDescriptor s) = persona_show_notifications s"
  "persona_allow_multi_connections (applyDescriptor s) = persona_allow_multi_connections s"
  "events (applyDescriptor s) = events s"
  by (simp_all add: applyDescriptor_def split: option.splits)

lemma applyDescriptor_descriptions:
  "k \<noteq> user_avatar s \<Longrightarrow>
     map_of (persona_descriptions (applyDescriptor s)) k = map_of (persona_descriptions s) k"
  by (simp add: applyDescriptor_def update_conv' split: option.splits)

lemma autoLock_fields [simp]:
  "personas (autoLock b t s) = personas s"
  "persona_descriptions (autoLock b t s) = persona_descriptions s"
  "default_persona (autoLock b t s) = default_persona s"
  "user_avatar (autoLock b t s) = user_avatar s"
  "persona_auto_lock (autoLock b t s) = persona_auto_lock s"
  "persona_show_notifications (autoLock b t s) = persona_show_notifications s"
  "persona_allow_multi_connections (autoLock b t s) = persona_allow_multi_connections s"
  "chat_persona (autoLock b t s) = (if b then Some (user_avatar s) else chat_persona s)"
  by (simp_all add: autoLock_def)

lemma autoLock_events:
  "set (events s) \<subseteq> set (events (autoLock b t s))"
  "popups (autoLock b t s) = popups s"
  by (auto simp: autoLock_def notify_def popups_def)

lemma selectCurrentPersona_fields [simp]:
  "personas (selectCurrentPersona t s) = personas s"
  "default_persona (selectCurrentPersona t s) = default_persona s"
  "user_avatar (selectCurrentPersona t s) = user_avatar s"
  "persona_auto_lock (selectCurrentPersona t s) = persona_auto_lock s"
  "persona_show_notifications (selectCurrentPersona t s) = persona_show_notifications s"
  "persona_allow_multi_connections (selectCurrentPersona t s) = persona_allow_multi_connections s"
  by (simp_all add: selectCurrentPersona_def Let_def split: option.splits)

lemma selectCurrentPersona_cases:
  obtains (skip) "selectCurrentPersona t s = s"
  | (pick) personaName s0 where
      "map_of (personas s) (user_avatar s) = Some personaName"
      "s0 = s \<or> s0 = setUserName personaName s"
      "selectCurrentPersona t s =
         temporaryPersonaNotice
           (autoLock (persona_auto_lock s \<and> Some (user_avatar s) \<noteq> chat_persona s) t
              (setPersonaDescription (applyDescriptor s0)))"
proof (cases "map_of (personas s) (user_avatar s)")
  case None
  then have "selectCurrentPersona t s = s" by (simp add: selectCurrentPersona_def)
  then show ?thesis by (rule skip)
next
  case (Some personaName)
  show ?thesis
  proof (cases "personaName = []")
    case True
    with Some have "selectCurrentPersona t s = s" by (simp add: selectCurrentPersona_def)
    then show ?thesis by (rule skip)
  next
    case False
    show ?thesis
    proof (cases "personaName = name1 s")
      case True
      with Some False show ?thesis
        by (intro pick [of personaName s]) (simp_all add: selectCurrentPersona_def)
    next
      case ne: False
      with Some False show ?thesis
        by (intro pick [of personaName "setUserName personaName s"])
           (simp_all add: selectCurrentPersona_def)
    qed
  qed
qed

lemma selectCurrentPersona_events:
  "set (events s) \<subseteq> set (events (selectCurrentPersona t s))"
  "popups (selectCurrentPersona t s) = popups s"
proof -
  show "set (events s) \<subseteq> set (events (selectCurrentPersona t s))"
  proof (cases t s rule: selectCurrentPersona_cases)
    case skip
    then show ?thesis by simp
  next
    case (pick personaName s0)
    let ?s1 = "setPersonaDescription (applyDescriptor s0)"
    let ?b = "persona_auto_lock s \<and> Some (user_avatar s) \<noteq> chat_persona s"
    from pick(2) have "events ?s1 = events s" by auto
    then have "set (events s) \<subseteq> set (events (autoLock ?b t ?s1))"
      using autoLock_events(1) [of ?s1 ?b t] by simp
    also have "\<dots> \<subseteq> set (events (temporaryPersonaNotice (autoLock ?b t ?s1)))"
      by (rule temporaryPersonaNotice_events(1))
    finally show ?thesis by (simp only: pick(3))
  qed
  show "popups (selectCurrentPersona t s) = popups s"
  proof (cases t s rule: selectCurrentPersona_cases)
    case skip
    then show ?thesis by simp
  next
    case (pick personaName s0)
    from pick(2) have "events (setPersonaDescription (applyDescriptor s0)) = events s" by auto
    then have "popups (setPersonaDescription (applyDescriptor s0)) = popups s"
      by (rule popups_cong)
    then show ?thesis
      by (simp only: pick(3) temporaryPersonaNotice_events(2) autoLock_events(2))
  qed
qed

lemma selectCurrentPersona_chat_persona:
  "chat_persona (selectCurrentPersona t s) = chat_persona s
   \<or> (chat_persona (selectCurrentPersona t s) = Some (user_avatar s)
       \<and> persona_auto_lock s \<and> map_of (personas s) (user_avatar s) \<noteq> None)"
proof (cases t s rule: selectCurrentPersona_cases)
  case skip
  then show ?thesis by simp
next
  case (pick personaName s0)
  from pick(2) have "chat_persona s0 = chat_persona s" "user_avatar s0 = user_avatar s"
    by auto
  with pick(1) show ?thesis
    by (simp add: pick(3))
qed

lemma selectCurrentPersona_descriptions:
  "map_of (personas s) k = None \<Longrightarrow>
     map_of (persona_descriptions (selectCurrentPersona t s)) k = map_of (persona_descriptions s) k"
proof (cases t s rule: selectCurrentPersona_cases)
  case skip
  then show ?thesis by simp
next
  case (pick personaName s0)
  assume none: "map_of (personas s) k = None"
  from pick(2) have s0: "persona_descriptions s0 = persona_descriptions s"
    "user_avatar s0 = user_avatar s"
    by auto
  from none pick(1) have "k \<noteq> user_avatar s0" by (auto simp: s0)
  then show ?thesis
    by (simp add: pick(3) applyDescriptor_descriptions s0)
qed

lemma setUserAvatar_fields [simp]:
  "personas (setUserAvatar a t s) = personas s"
  "default_persona (setUserAvatar a t s) = default_persona s"
  "user_avatar (setUserAvatar a t s) = a"
  "persona_auto_lock (setUserAvatar a t s) = persona_auto_lock s"
  "persona_show_notifications (setUserAvatar a t s) = persona_show_notifications s"
  "persona_allow_multi_connections (setUserAvatar a t s) = persona_allow_multi_connections s"
  by (simp_all add: setUserAvatar_def)

lemma setUserAvatar_events:
  "set (events s) \<subseteq> set (events (setUserAvatar a t s))"
  "popups (setUserAvatar a t s) = popups s"
proof -
  have "set (events (s\<lparr>user_avatar := a\<rparr>)) \<subseteq> set (events (selectCurrentPersona t (s\<lparr>user_avatar := a\<rparr>)))"
    by (rule selectCurrentPersona_events(1))
  then show "set (events s) \<subseteq> set (events (setUserAvatar a t s))"
    by (auto simp: setUserAvatar_def)
  show "popups (setUserAvatar a t s) = popups s"
    using selectCurrentPersona_events(2) [of t "s\<lparr>user_avatar := a\<rparr>"]
    by (simp add: setUserAvatar_def popups_def)
qed

lemma setUserAvatar_chat_persona:
  "chat_persona (setUserAvatar a t s) = chat_persona s
   \<or> (chat_persona (setUserAvatar a t s) = Some a
       \<and> persona_auto_lock s \<and> map_of (personas s) a \<noteq> None)"
  using selectCurrentPersona_chat_persona [of t "s\<lparr>user_avatar := a\<rparr>"]
  by (simp add: setUserAvatar_def)

lemma setUserAvatar_descriptions:
  "map_of (personas s) k = None \<Longrightarrow>
     map_of (persona_descriptions (setUserAvatar a t s)) k = map_of (persona_descriptions s) k"
  using selectCurrentPersona_descriptions [of "s\<lparr>user_avatar := a\<rparr>" k t]
  by (simp add: setUserAvatar_def)

section \<open>Facts about the resolution\<close>

lemma follows_refl [simp]: "follows a s s"
  by (simp add: follows_def)

lemma follows_trans:
  assumes "follows a s s'" and "follows a s' s''"
  shows "follows a s s''"
proof -
  from assms have p: "personas s' = personas s" "personas s'' = personas s'"
    and l: "persona_auto_lock s' = persona_auto_lock s" "persona_auto_lock s'' = persona_auto_lock s'"
    by (simp_all add: follows_def)
  from assms have d: "default_persona s' = None \<or> default_persona s' = default_persona s"
    "default_persona s'' = None \<or> default_persona s'' = default_persona s'"
    by (simp_all add: follows_def)
  from assms have k:
    "map_of (personas s) a = None \<and> map_of (persona_descriptions s) a = None
       \<longrightarrow> map_of (persona_descriptions s') a = None"
    "map_of (personas s') a = None \<and> map_of (persona_descriptions s') a = None
       \<longrightarrow> map_of (persona_descriptions s'') a = None"
    by (simp_all add: follows_def)
  from assms have c:
    "chat_persona s' = chat_persona s \<or> chat_persona s' = None
        \<or> (persona_auto_lock s
            \<and> Option.bind (chat_persona s') (map_of (personas s)) \<noteq> None)"
    "chat_persona s'' = chat_persona s' \<or> chat_persona s'' = None
        \<or> (persona_auto_lock s'
            \<and> Option.bind (chat_persona s'') (map_of (personas s')) \<noteq> None)"
    by (simp_all add: follows_def)
  from assms have e: "set (events s) \<subseteq> set (events s')" "set (events s') \<subseteq> set (events s'')"
    by (simp_all add: follows_def)
  have 1: "personas s'' = personas s" "persona_auto_lock s'' = persona_auto_lock s"
    using p l by simp_all
  have 2: "default_persona s'' = None \<or> default_persona s'' = default_persona s"
    using d by auto
  have 3: "map_of (personas s) a = None \<and> map_of (persona_descriptions s) a = None
       \<longrightarrow> map_of (persona_descriptions s'') a = None"
    using k p by simp
  have 4: "chat_persona s'' = chat_persona s \<or> chat_persona s'' = None
        \<or> (persona_auto_lock s
            \<and> Option.bind (chat_persona s'') (map_of (personas s)) \<noteq> None)"
    using c p(1) l(1) by auto
  have 5: "set (events s) \<subseteq> set (events s'')"
    using e by auto
  from 1 2 3 4 5 show ?thesis
    unfolding follows_def by blast
qed

lemma follows_emit: "follows a s (emit e s)"
  by (auto simp: follows_def)

lemma follows_notify: "follows a s (notify e s)"
  by (simp add: notify_def follows_emit)

lemma follows_setUserAvatar: "follows a s (setUserAvatar p t s)"
  unfolding follows_def
  using setUserAvatar_chat_persona [of p t s] setUserAvatar_descriptions [of s a p t]
    setUserAvatar_events(1) [of s p t]
  by auto

lemma follows_selectStep: "follows a (store r) (store (selectStep r))"
  by (auto simp: selectStep_def intro: follows_trans [OF follows_setUserAvatar follows_notify])

lemma selectStep_fields [simp]:
  "chatPersona (selectStep r) = chatPersona r"
  "connectType (selectStep r) = connectType r"
  by (simp_all add: selectStep_def)

lemma selectStep_user_avatar:
  "truthy (chatPersona r) \<Longrightarrow> user_avatar (store (selectStep r)) = the (chatPersona r)"
  by (simp add: selectStep_def)

lemma clearMissingChatLock_follows:
  "follows a (store r) (outcomeStore (clearMissingChatLock userAvatars r))"
  by (auto simp: clearMissingChatLock_def Let_def outcomeStore_def follows_def
      split: option.splits)

lemma clearMissingChatLock_locals:
  "clearMissingChatLock userAvatars r = Inr r' \<Longrightarrow>
     chatPersona r' = chatPersona r \<and> connectType r' = connectType r"
  by (auto simp: clearMissingChatLock_def Let_def split: option.splits if_splits)

lemma clearMissingChatLock_Some: "\<exists>r'. clearMissingChatLock (Some avatars) r = Inr r'"
  by (simp add: clearMissingChatLock_def Let_def)

lemma clearMissingDefault_follows:
  "follows a (store r) (outcomeStore (clearMissingDefault userAvatars r))"
  by (auto simp: clearMissingDefault_def Let_def outcomeStore_def follows_def
      split: option.splits)

lemma clearMissingDefault_locals:
  "clearMissingDefault userAvatars r = Inr r' \<Longrightarrow>
     chatPersona r' = chatPersona r \<and> connectType r' = connectType r"
  by (auto simp: clearMissingDefault_def Let_def split: option.splits if_splits)

lemma clearMissingDefault_Some: "\<exists>r'. clearMissingDefault (Some avatars) r = Inr r'"
  by (simp add: clearMissingDefault_def Let_def)

lemma defaultStep_store [simp]: "store (defaultStep r) = store r"
  by (simp add: defaultStep_def)

lemma defaultStep_chosen:
  "truthy (chatPersona r) \<Longrightarrow> defaultStep r = r"
  by (simp add: defaultStep_def)

lemma chatLockStep_follows:
  "follows a (store r) (outcomeStore (chatLockStep userAvatars r))"
  by (auto simp: chatLockStep_def Let_def outcomeStore_def follows_def
      split: option.splits)

lemma chatLockStep_Some: "\<exists>r'. chatLockStep (Some avatars) r = Inr r'"
  by (simp add: chatLockStep_def Let_def)


lemma selectStep_popups: "popups (store (selectStep r)) = popups (store r)"
  by (simp add: selectStep_def setUserAvatar_events(2))

lemma clearMissingChatLock_popups:
  "clearMissingChatLock userAvatars r = Inr r' \<Longrightarrow> popups (store r') = popups (store r)"
  by (auto simp: clearMissingChatLock_def Let_def popups_def split: option.splits if_splits)

lemma clearMissingDefault_popups:
  "clearMissingDefault userAvatars r = Inr r' \<Longrightarrow> popups (store r') = popups (store r)"
  by (auto simp: clearMissingDefault_def Let_def popups_def split: option.splits if_splits)

lemma getConnectedPersonas_cong:
  "persona_descriptions s' = persona_descriptions s \<Longrightarrow>
     getConnectedPersonas ctx s' = getConnectedPersonas ctx s"
  by (simp add: getConnectedPersonas_def)

text \<open>The chat lock step when the chat has no lock, or a lock on a missing avatar.\<close>

lemma chatLockStep_unlocked:
  assumes "\<not> truthy (chat_persona s) \<or> the (chat_persona s) \<notin> set avatars"
  shows "\<exists>s1. chatLockStep (Some avatars) \<lparr>chatPersona = Some [], connectType = None, store = s\<rparr>
                = Inr \<lparr>chatPersona = Some [], connectType = None, store = s1\<rparr>
             \<and> persona_descriptions s1 = persona_descriptions s
             \<and> persona_allow_multi_connections s1 = persona_allow_multi_connections s
             \<and> set (events s) \<subseteq> set (events s1) \<and> popups s1 = popups s"
  using assms by (auto simp: chatLockStep_def Let_def popups_def)

lemma connectionStep_single:
  assumes "\<not> truthy (chatPersona r)" and "getConnectedPersonas ctx (store r) = [p]" and "p \<noteq> []"
  shows "connectionStep ctx answer r = r\<lparr>chatPersona := Some p, connectType := Some ''character''\<rparr>"
  using assms by (simp add: connectionStep_def Let_def)

lemma connectionStep_first:
  assumes "\<not> truthy (chatPersona r)" and "1 < length (getConnectedPersonas ctx (store r))"
    and "\<not> persona_allow_multi_connections (store r)"
    and "getConnectedPersonas ctx (store r) ! 0 \<noteq> []"
  shows "connectionStep ctx answer r =
           r\<lparr>chatPersona := Some (getConnectedPersonas ctx (store r) ! 0),
             store := emit (ConsoleWarn ''More than one persona is connected to this character.Using the first available persona for this chat.'') (store r),
             connectType := Some ''character''\<rparr>"
  using assms by (auto simp: connectionStep_def Let_def)

lemma connectionStep_prompt:
  assumes "\<not> truthy (chatPersona r)" and "1 < length (getConnectedPersonas ctx (store r))"
    and "persona_allow_multi_connections (store r)"
  shows "connectionStep ctx answer r =
           (case askForPersonaSelection (getConnectedPersonas ctx (store r))
                   (getCurrentConnectionObj ctx) answer (store r) of
              (chosen, s') \<Rightarrow>
                if truthy chosen
                then r\<lparr>chatPersona := chosen, store := s', connectType := Some ''character''\<rparr>
                else r\<lparr>chatPersona := chosen, store := s'\<rparr>)"
  using assms by (auto simp: connectionStep_def Let_def split: prod.splits)

lemma removeAllConnections_follows: "follows a s (removeAllConnections target s)"
proof -
  have "map_of (map (\<lambda>entry. case connections (snd entry) of None \<Rightarrow> entry
                        | Some cs \<Rightarrow> (fst entry, f entry cs)) ds) a = None"
    if "map_of ds a = None" for ds :: "(string \<times> descriptor) list" and f
    using that by (induction ds) (auto split: option.splits if_splits)
  then show ?thesis
    by (auto simp: follows_def removeAllConnections_def notify_def)
qed

lemma askForPersonaSelection_follows:
  "follows a s (snd (askForPersonaSelection offered target answer s))"
  by (cases answer; cases target)
     (auto simp: askForPersonaSelection_def Let_def follows_emit
       intro: follows_trans [OF follows_emit removeAllConnections_follows])

lemma askForPersonaSelection_popups:
  "popups (snd (askForPersonaSelection offered target answer s))
     = popups s @ [PersonaSelectionPopup offered]"
  by (cases answer; cases target)
     (auto simp: askForPersonaSelection_def Let_def removeAllConnections_def notify_def popups_def)

lemma askForPersonaSelection_chosen:
  "i < length offered \<Longrightarrow>
     fst (askForPersonaSelection offered target (PersonaChosen i) s) = Some (offered ! i)"
  by (simp add: askForPersonaSelection_def Let_def)

lemma connectionStep_follows: "follows a (store r) (store (connectionStep ctx answer r))"
  using askForPersonaSelection_follows
          [of a "store r" "getConnectedPersonas ctx (store r)" "getCurrentConnectionObj ctx" answer]
  by (auto simp: connectionStep_def Let_def follows_emit split: prod.splits)

lemma loadPersonaForCurrentChat_follows:
  "follows a s (outcomeStore (loadPersonaForCurrentChat userAvatars answer ctx s))"
proof -
  let ?r0 = "\<lparr>chatPersona = Some [], connectType = None, store = s\<rparr>"
  have f1: "follows a s (outcomeStore (chatLockStep userAvatars ?r0))"
    using chatLockStep_follows [of a ?r0 userAvatars] by simp
  show ?thesis
  proof (cases "chatLockStep userAvatars ?r0")
    case (Inl failure)
    with f1 show ?thesis
      by (simp add: loadPersonaForCurrentChat_def outcomeStore_def)
  next
    case r1: (Inr r1)
    let ?r2 = "defaultStep (connectionStep ctx answer r1)"
    from f1 r1 have "follows a s (store r1)"
      by (simp add: outcomeStore_def)
    then have f2: "follows a s (store ?r2)"
      using connectionStep_follows [of a r1 ctx answer] by (auto intro: follows_trans)
    have f3: "follows a s (outcomeStore (clearMissingChatLock userAvatars ?r2))"
      by (rule follows_trans [OF f2 clearMissingChatLock_follows])
    show ?thesis
    proof (cases "clearMissingChatLock userAvatars ?r2")
      case (Inl failure)
      with f3 r1 show ?thesis
        by (simp add: loadPersonaForCurrentChat_def outcomeStore_def)
    next
      case r3: (Inr r3)
      with f3 have "follows a s (store r3)"
        by (simp add: outcomeStore_def)
      then have f4: "follows a s (outcomeStore (clearMissingDefault userAvatars r3))"
        by (rule follows_trans [OF _ clearMissingDefault_follows])
      show ?thesis
      proof (cases "clearMissingDefault userAvatars r3")
        case (Inl failure)
        with f4 r1 r3 show ?thesis
          by (simp add: loadPersonaForCurrentChat_def outcomeStore_def)
      next
        case r4: (Inr r4)
        with f4 have "follows a s (store r4)"
          by (simp add: outcomeStore_def)
        then have "follows a s (store (selectStep r4))"
          by (rule follows_trans [OF _ follows_selectStep])
        with r1 r3 r4 show ?thesis
          by (simp add: loadPersonaForCurrentChat_def outcomeStore_def)
      qed
    qed
  qed
qed

text \<open>The resolution from the connection step on, when the chat lock step selected nothing.\<close>

lemma resolution_after_chat_lock:
  assumes "\<not> truthy (chat_persona s) \<or> the (chat_persona s) \<notin> set avatars"
  shows "\<exists>s1 r. loadPersonaForCurrentChat (Some avatars) answer ctx s = Inr r
           \<and> getConnectedPersonas ctx s1 = getConnectedPersonas ctx s
           \<and> persona_allow_multi_connections s1 = persona_allow_multi_connections s
           \<and> set (events s) \<subseteq> set (events s1) \<and> popups s1 = popups s
           \<and> (let r2 = defaultStep (connectionStep ctx answer
                          \<lparr>chatPersona = Some [], connectType = None, store = s1\<rparr>)
              in chatPersona r = chatPersona r2 \<and> connectType r = connectType r2
               \<and> popups (store r) = popups (store r2)
               \<and> set (events (store r2)) \<subseteq> set (events (store r))
               \<and> (truthy (chatPersona r2) \<longrightarrow> user_avatar (store r) = the (chatPersona r2)))"
proof -
  from chatLockStep_unlocked [OF assms] obtain s1 where
    step1: "chatLockStep (Some avatars) \<lparr>chatPersona = Some [], connectType = None, store = s\<rparr>
              = Inr \<lparr>chatPersona = Some [], connectType = None, store = s1\<rparr>"
    and s1: "persona_descriptions s1 = persona_descriptions s"
      "persona_allow_multi_connections s1 = persona_allow_multi_connections s"
      "set (events s) \<subseteq> set (events s1)" "popups s1 = popups s"
    by blast
  define r2 where "r2 = defaultStep (connectionStep ctx answer
                          \<lparr>chatPersona = Some [], connectType = None, store = s1\<rparr>)"
  obtain r3 where r3: "clearMissingChatLock (Some avatars) r2 = Inr r3"
    using clearMissingChatLock_Some by blast
  obtain r4 where r4: "clearMissingDefault (Some avatars) r3 = Inr r4"
    using clearMissingDefault_Some by blast
  have run: "loadPersonaForCurrentChat (Some avatars) answer ctx s = Inr (selectStep r4)"
    by (simp add: loadPersonaForCurrentChat_def step1 r3 [unfolded r2_def] r4)
  have locals: "chatPersona (selectStep r4) = chatPersona r2"
    "connectType (selectStep r4) = connectType r2"
    using clearMissingChatLock_locals [OF r3] clearMissingDefault_locals [OF r4] by simp_all
  have pops: "popups (store (selectStep r4)) = popups (store r2)"
    using clearMissingChatLock_popups [OF r3] clearMissingDefault_popups [OF r4]
    by (simp add: selectStep_popups)
  have "follows [] (store r2) (store r3)"
    using clearMissingChatLock_follows [of "[]" r2 "Some avatars"] r3
    by (simp add: outcomeStore_def)
  moreover have "follows [] (store r3) (store r4)"
    using clearMissingDefault_follows [of "[]" r3 "Some avatars"] r4
    by (simp add: outcomeStore_def)
  ultimately have "follows [] (store r2) (store (selectStep r4))"
    by (blast intro: follows_trans follows_selectStep)
  then have evs: "set (events (store r2)) \<subseteq> set (events (store (selectStep r4)))"
    by (simp add: follows_def)
  have ua: "user_avatar (store (selectStep r4)) = the (chatPersona r2)" if "truthy (chatPersona r2)"
    using that locals(1) clearMissingChatLock_locals [OF r3] clearMissingDefault_locals [OF r4]
    by (simp add: selectStep_user_avatar)
  from run locals pops evs ua s1 show ?thesis
    unfolding r2_def [symmetric] Let_def
    using getConnectedPersonas_cong [OF s1(1)]
    by (intro exI [of _ s1] exI [of _ "selectStep r4"]) (simp add: r2_def)
qed

lemmas example_defs = blankState_def plainDescriptor_def characterChat_def groupChat_def
  aliceAndBob_def danglingDefault_def danglingLocks_def bothConnected_def lockedToGroup_def
  bothLockedToGroup_def
  aliceEverywhere_def restoreTarget_def exampleBackup_def

lemmas resolution_defs = loadPersonaForCurrentChat_def chatLockStep_def connectionStep_def
  defaultStep_def clearMissingChatLock_def clearMissingDefault_def selectStep_def
  getConnectedPersonas_def getCurrentConnectionObj_def askForPersonaSelection_def
  setUserAvatar_def selectCurrentPersona_def applyDescriptor_def autoLock_def
  setPersonaDescription_def temporaryPersonaNotice_def setUserName_def emit_def notify_def
  nullish_def DEFAULT_DEPTH_def DEFAULT_ROLE_def selection_def outcomeStore_def finalState_def

lemmas restore_defs = onPersonasRestoreInput_def restoreDefault_def restoreReport_def
  restoreTwice_def restoredWarnings_def restoredDefault_def setPersonaDescription_def emit_def

section \<open>The connection step of the resolution\<close>

lemma getConnectedPersonas_character_chat:
  assumes "\<not> truthy (selected_group ctx)" and "character_avatar ctx = Some a"
  shows "getConnectedPersonas ctx s = holders s (PersonaConnection Character a)"
proof -
  have eq: "conn_type conn = Character \<and> Some (conn_id conn) = Some a
              \<longleftrightarrow> conn = PersonaConnection Character a" for conn
    by (cases conn) auto
  have "(case connections d of None \<Rightarrow> False
         | Some cs \<Rightarrow> list_ex (\<lambda>conn. conn_type conn = Character \<and> Some (conn_id conn) = Some a) cs)
        \<longleftrightarrow> holds (PersonaConnection Character a) d" for d
    by (cases "connections d") (simp_all only: eq, auto simp: holds_def nullish_def list_ex_iff)
  then show ?thesis
    using assms by (simp add: getConnectedPersonas_def holders_def Let_def)
qed


text \<open>
  What the connection step does with the list that \<^verbatim>\<open>getConnectedPersonas\<close> returns. When
  the chat lock step has selected nothing (the chat has no lock, or its lock names a missing
  avatar), the personas of that list decide: a single one is selected without a prompt; of several, with multiple connections
  not allowed, the first one is selected without a prompt and the console warning is written;
  of several, with multiple connections allowed, the selection popup is shown once with the
  whole list, and the persona the user clicks there is selected. Selected means that it is
  the \<^verbatim>\<open>chatPersona\<close> with connect type \<^verbatim>\<open>'character'\<close> and becomes \<^verbatim>\<open>user_avatar\<close>; an avatar id
  is a non-empty string. In a chat with a character the list is the list of the personas
  that hold the connection to that character (\<open>getConnectedPersonas_character_chat\<close>); in a
  group chat it is not, see the last section.
\<close>

theorem connection_step_selection:
  assumes reach: "\<not> truthy (chat_persona s) \<or> the (chat_persona s) \<notin> set avatars"
  shows "\<exists>r. loadPersonaForCurrentChat (Some avatars) answer ctx s = Inr r
    \<and> (\<forall>p. getConnectedPersonas ctx s = [p] \<and> p \<noteq> [] \<longrightarrow>
          chatPersona r = Some p \<and> connectType r = Some ''character''
          \<and> user_avatar (store r) = p \<and> popups (store r) = popups s)
    \<and> (1 < length (getConnectedPersonas ctx s) \<and> \<not> persona_allow_multi_connections s
          \<and> getConnectedPersonas ctx s ! 0 \<noteq> [] \<longrightarrow>
          chatPersona r = Some (getConnectedPersonas ctx s ! 0)
          \<and> connectType r = Some ''character''
          \<and> user_avatar (store r) = getConnectedPersonas ctx s ! 0
          \<and> ConsoleWarn ''More than one persona is connected to this character.Using the first available persona for this chat.''
               \<in> set (events (store r))
          \<and> popups (store r) = popups s)
    \<and> (1 < length (getConnectedPersonas ctx s) \<and> persona_allow_multi_connections s \<longrightarrow>
          popups (store r) = popups s @ [PersonaSelectionPopup (getConnectedPersonas ctx s)]
          \<and> (\<forall>i. answer = PersonaChosen i \<and> i < length (getConnectedPersonas ctx s)
                   \<and> getConnectedPersonas ctx s ! i \<noteq> [] \<longrightarrow>
                 chatPersona r = Some (getConnectedPersonas ctx s ! i)
                 \<and> connectType r = Some ''character''
                 \<and> user_avatar (store r) = getConnectedPersonas ctx s ! i))"
proof -
  from resolution_after_chat_lock [OF reach, of answer ctx] obtain s1 r where
    run: "loadPersonaForCurrentChat (Some avatars) answer ctx s = Inr r"
    and conn: "getConnectedPersonas ctx s1 = getConnectedPersonas ctx s"
    and multi: "persona_allow_multi_connections s1 = persona_allow_multi_connections s"
    and ev1: "set (events s) \<subseteq> set (events s1)" and pop1: "popups s1 = popups s"
    and tail: "let r2 = defaultStep (connectionStep ctx answer
                          \<lparr>chatPersona = Some [], connectType = None, store = s1\<rparr>)
              in chatPersona r = chatPersona r2 \<and> connectType r = connectType r2
               \<and> popups (store r) = popups (store r2)
               \<and> set (events (store r2)) \<subseteq> set (events (store r))
               \<and> (truthy (chatPersona r2) \<longrightarrow> user_avatar (store r) = the (chatPersona r2))"
    by blast
  let ?r1 = "\<lparr>chatPersona = Some [], connectType = None, store = s1\<rparr>"
  let ?connected = "getConnectedPersonas ctx s"
  have none: "\<not> truthy (chatPersona ?r1)" by simp
  have single: "chatPersona r = Some p \<and> connectType r = Some ''character''
          \<and> user_avatar (store r) = p \<and> popups (store r) = popups s"
    if "?connected = [p]" "p \<noteq> []" for p
  proof -
    have "connectionStep ctx answer ?r1 = ?r1\<lparr>chatPersona := Some p, connectType := Some ''character''\<rparr>"
      by (rule connectionStep_single [OF none]) (simp_all add: conn that)
    with tail that(2) pop1 show ?thesis
      by (simp add: Let_def defaultStep_chosen)
  qed
  have first: "chatPersona r = Some (?connected ! 0)
          \<and> connectType r = Some ''character''
          \<and> user_avatar (store r) = ?connected ! 0
          \<and> ConsoleWarn ''More than one persona is connected to this character.Using the first available persona for this chat.''
               \<in> set (events (store r))
          \<and> popups (store r) = popups s"
    if "1 < length ?connected" "\<not> persona_allow_multi_connections s" "?connected ! 0 \<noteq> []"
  proof -
    have "connectionStep ctx answer ?r1 =
           ?r1\<lparr>chatPersona := Some (getConnectedPersonas ctx (store ?r1) ! 0),
             store := emit (ConsoleWarn ''More than one persona is connected to this character.Using the first available persona for this chat.'') (store ?r1),
             connectType := Some ''character''\<rparr>"
      by (rule connectionStep_first [OF none]) (use that in \<open>simp_all add: conn multi\<close>)
    with tail that(3) pop1 show ?thesis
      by (auto simp: Let_def defaultStep_chosen conn)
  qed
  have prompt: "popups (store r) = popups s @ [PersonaSelectionPopup ?connected]
          \<and> (\<forall>i. answer = PersonaChosen i \<and> i < length ?connected \<and> ?connected ! i \<noteq> [] \<longrightarrow>
                 chatPersona r = Some (?connected ! i)
                 \<and> connectType r = Some ''character''
                 \<and> user_avatar (store r) = ?connected ! i)"
    if several: "1 < length ?connected" "persona_allow_multi_connections s"
  proof -
    obtain chosen s' where ask:
      "askForPersonaSelection ?connected (getCurrentConnectionObj ctx) answer s1 = (chosen, s')"
      by (cases "askForPersonaSelection ?connected (getCurrentConnectionObj ctx) answer s1")
    have step: "connectionStep ctx answer ?r1 =
                  (if truthy chosen
                   then ?r1\<lparr>chatPersona := chosen, store := s', connectType := Some ''character''\<rparr>
                   else ?r1\<lparr>chatPersona := chosen, store := s'\<rparr>)"
    proof -
      have "connectionStep ctx answer ?r1 =
           (case askForPersonaSelection (getConnectedPersonas ctx (store ?r1))
                   (getCurrentConnectionObj ctx) answer (store ?r1) of
              (chosen, s') \<Rightarrow>
                if truthy chosen
                then ?r1\<lparr>chatPersona := chosen, store := s', connectType := Some ''character''\<rparr>
                else ?r1\<lparr>chatPersona := chosen, store := s'\<rparr>)"
        by (rule connectionStep_prompt [OF none]) (use several in \<open>simp_all add: conn multi\<close>)
      with ask show ?thesis
        by (simp add: conn)
    qed
    have pops: "popups s' = popups s @ [PersonaSelectionPopup ?connected]"
      using askForPersonaSelection_popups [of ?connected "getCurrentConnectionObj ctx" answer s1]
      by (simp add: ask pop1)
    have p1: "popups (store r) = popups s @ [PersonaSelectionPopup ?connected]"
      using tail pops by (simp add: Let_def step)
    have p2: "chatPersona r = Some (?connected ! i) \<and> connectType r = Some ''character''
                 \<and> user_avatar (store r) = ?connected ! i"
      if i: "answer = PersonaChosen i" "i < length ?connected" "?connected ! i \<noteq> []" for i
    proof -
      have "chosen = Some (?connected ! i)"
        using askForPersonaSelection_chosen [OF i(2), of "getCurrentConnectionObj ctx" s1] ask i(1)
        by simp
      with tail i(3) show ?thesis
        by (simp add: Let_def step defaultStep_chosen)
    qed
    from p1 p2 show ?thesis by blast
  qed
  from run single first prompt show ?thesis
    by blast
qed

theorem connection_step_selection_witness:
  "getConnectedPersonas characterChat aliceAndBob = [''alice.png'']
   \<and> selection (loadPersonaForCurrentChat (Some [''alice.png'', ''bob.png'']) Dismissed
                  characterChat aliceAndBob)
       = Inr (Some ''alice.png'', Some ''character'', ''alice.png'')
   \<and> getConnectedPersonas characterChat bothConnected = [''alice.png'', ''bob.png'']
   \<and> selection (loadPersonaForCurrentChat (Some [''alice.png'', ''bob.png'']) Dismissed
                  characterChat bothConnected)
       = Inr (Some ''alice.png'', Some ''character'', ''alice.png'')
   \<and> selection (loadPersonaForCurrentChat (Some [''alice.png'', ''bob.png'']) (PersonaChosen 1)
                  characterChat (bothConnected\<lparr>persona_allow_multi_connections := True\<rparr>))
       = Inr (Some ''bob.png'', Some ''character'', ''bob.png'')"
  using connection_step_selection
          [of aliceAndBob "[''alice.png'', ''bob.png'']" Dismissed characterChat]
        connection_step_selection
          [of bothConnected "[''alice.png'', ''bob.png'']" Dismissed characterChat]
        connection_step_selection
          [of "bothConnected\<lparr>persona_allow_multi_connections := True\<rparr>"
              "[''alice.png'', ''bob.png'']" "PersonaChosen 1" characterChat]
  by (simp add: example_defs resolution_defs Let_def)

section \<open>Deleting a persona\<close>

lemma finalState_map_sum [simp]: "finalState (map_sum id store outcome) = outcomeStore outcome"
  by (cases outcome) (simp_all add: finalState_def outcomeStore_def)

lemma deletePersonaEntries_effect:
  "map_of (personas (deletePersonaEntries a s)) a = None"
  "map_of (persona_descriptions (deletePersonaEntries a s)) a = None"
  "default_persona (deletePersonaEntries a s) = (if default_persona s = Some a then None else default_persona s)"
  "chat_persona (deletePersonaEntries a s) = (if chat_persona s = Some a then None else chat_persona s)"
  "persona_auto_lock (deletePersonaEntries a s) = persona_auto_lock s"
  "default_persona s = Some a \<Longrightarrow> ToastWarning ''Default Persona Deleted'' \<in> set (events (deletePersonaEntries a s))"
  "chat_persona s = Some a \<Longrightarrow> ToastWarning ''Persona Deleted'' \<in> set (events (deletePersonaEntries a s))"
  "chat_persona s = Some a \<Longrightarrow> SaveMetadata \<in> set (events (deletePersonaEntries a s))"
  by (auto simp: deletePersonaEntries_def Let_def delete_conv')

text \<open>
  Claim C7. Once the user has confirmed and the server has deleted the avatar,
  \<^verbatim>\<open>deleteUserAvatar\<close> leaves neither a name nor a descriptor for the deleted persona,
  whatever the resolution it ends with does, and also when that resolution throws. If the
  persona was the default, the default is cleared, the warning toast "Default Persona
  Deleted" is shown and \<^verbatim>\<open>isPersonaLocked('default')\<close> is false. If it was locked to the
  chat, the deletion clears the chat lock and saves the chat metadata; after the resolution
  that follows, the chat is still not locked to the deleted persona, and it has no lock at all
  unless the auto-lock is on (which locks the chat to the persona selected next).
\<close>

theorem deleteUserAvatar_removes_persona:
  assumes selected: "user_avatar s = a" "a \<noteq> []"
  shows "map_of (personas (finalState (deleteUserAvatar True True userAvatars answer ctx s))) a = None
     \<and> map_of (persona_descriptions (finalState (deleteUserAvatar True True userAvatars answer ctx s))) a = None
     \<and> (default_persona s = Some a \<longrightarrow>
           default_persona (finalState (deleteUserAvatar True True userAvatars answer ctx s)) = None
         \<and> ToastWarning ''Default Persona Deleted''
             \<in> set (events (finalState (deleteUserAvatar True True userAvatars answer ctx s)))
         \<and> isPersonaLocked ''default'' ctx
               (finalState (deleteUserAvatar True True userAvatars answer ctx s)) = Inr False)
     \<and> (chat_persona s = Some a \<longrightarrow>
           chat_persona (deletePersonaEntries a s) = None
         \<and> SaveMetadata \<in> set (events (finalState (deleteUserAvatar True True userAvatars answer ctx s)))
         \<and> chat_persona (finalState (deleteUserAvatar True True userAvatars answer ctx s)) \<noteq> Some a
         \<and> (\<not> persona_auto_lock s \<longrightarrow>
               chat_persona (finalState (deleteUserAvatar True True userAvatars answer ctx s)) = None))"
proof -
  define s1 where "s1 = deletePersonaEntries a s"
  define s' where "s' = finalState (deleteUserAvatar True True userAvatars answer ctx s)"
  have s': "s' = outcomeStore (loadPersonaForCurrentChat userAvatars answer ctx s1)"
    using selected by (simp add: s'_def s1_def deleteUserAvatar_def Let_def)
  have f: "follows a s1 s'"
    unfolding s' by (rule loadPersonaForCurrentChat_follows)
  note d = deletePersonaEntries_effect [where a = a and s = s, folded s1_def]
  from f d(1) have 1: "map_of (personas s') a = None"
    by (simp add: follows_def)
  from f d(1,2) have 2: "map_of (persona_descriptions s') a = None"
    by (simp add: follows_def)
  have 3: "default_persona s' = None" if "default_persona s = Some a"
    using f d(3) that by (auto simp: follows_def)
  have 4: "ToastWarning ''Default Persona Deleted'' \<in> set (events s')" if "default_persona s = Some a"
    using f d(6) [OF that] by (auto simp: follows_def)
  have 5: "isPersonaLocked ''default'' ctx s' = Inr False" if "default_persona s = Some a"
    using 3 [OF that] by (simp add: isPersonaLocked_def)
  have 6: "chat_persona s1 = None" if "chat_persona s = Some a"
    using d(4) that by simp
  have 7: "SaveMetadata \<in> set (events s')" if "chat_persona s = Some a"
    using f d(8) [OF that] by (auto simp: follows_def)
  have 8: "chat_persona s' \<noteq> Some a" if "chat_persona s = Some a"
    using f 6 [OF that] d(1) by (auto simp: follows_def)
  have 9: "chat_persona s' = None" if "chat_persona s = Some a" "\<not> persona_auto_lock s"
    using f 6 [OF that(1)] d(5) that(2) by (auto simp: follows_def)
  from 1 2 3 4 5 6 7 8 9 show ?thesis
    unfolding s'_def s1_def by blast
qed

theorem deleteUserAvatar_removes_persona_witness:
  "user_avatar aliceEverywhere = ''alice.png''
   \<and> default_persona aliceEverywhere = Some ''alice.png''
   \<and> chat_persona aliceEverywhere = Some ''alice.png''
   \<and> map_of (personas (finalState (deleteUserAvatar True True (Some [''bob.png'']) Dismissed
                                      characterChat aliceEverywhere))) ''alice.png'' = None
   \<and> map_of (persona_descriptions (finalState (deleteUserAvatar True True (Some [''bob.png''])
                                      Dismissed characterChat aliceEverywhere))) ''alice.png'' = None
   \<and> default_persona (finalState (deleteUserAvatar True True (Some [''bob.png'']) Dismissed
                                     characterChat aliceEverywhere)) = None
   \<and> isPersonaLocked ''default'' characterChat
        (finalState (deleteUserAvatar True True (Some [''bob.png'']) Dismissed
                       characterChat aliceEverywhere)) = Inr False
   \<and> chat_persona (finalState (deleteUserAvatar True True (Some [''bob.png'']) Dismissed
                                  characterChat aliceEverywhere)) = None"
  using deleteUserAvatar_removes_persona
          [of aliceEverywhere "''alice.png''" "Some [''bob.png'']" Dismissed characterChat]
  by (simp add: example_defs resolution_defs deleteUserAvatar_def deletePersonaEntries_def
        isPersonaLocked_def Let_def)

section \<open>Restoring a backup\<close>

lemma restorePersonas_merges:
  "\<exists>w' s'. restorePersonas (Some avatars) bp w s = Inr (w', s')
      \<and> persona_descriptions s' = persona_descriptions s
      \<and> default_persona s' = default_persona s
      \<and> (\<forall>k v. map_of (personas s) k = Some v \<longrightarrow> map_of (personas s') k = Some v)
      \<and> (\<forall>entry \<in> set bp. map_of (personas s') (fst entry) \<noteq> None)
      \<and> set w \<subseteq> set w'
      \<and> (\<forall>entry \<in> set bp. map_of (personas s) (fst entry) \<noteq> None
            \<longrightarrow> PersonaAlreadyExists (fst entry) (snd entry) \<in> set w')"
proof (induction bp arbitrary: w s)
  case Nil
  then show ?case by simp
next
  case (Cons entry rest)
  show ?case
  proof (cases "map_of (personas s) (fst entry) \<noteq> None")
    case True
    from Cons.IH [of "w @ [PersonaAlreadyExists (fst entry) (snd entry)]" s]
    obtain w' s' where
      "restorePersonas (Some avatars) rest (w @ [PersonaAlreadyExists (fst entry) (snd entry)]) s
         = Inr (w', s')"
      "persona_descriptions s' = persona_descriptions s"
      "default_persona s' = default_persona s"
      "\<forall>k v. map_of (personas s) k = Some v \<longrightarrow> map_of (personas s') k = Some v"
      "\<forall>entry \<in> set rest. map_of (personas s') (fst entry) \<noteq> None"
      "set (w @ [PersonaAlreadyExists (fst entry) (snd entry)]) \<subseteq> set w'"
      "\<forall>entry \<in> set rest. map_of (personas s) (fst entry) \<noteq> None
            \<longrightarrow> PersonaAlreadyExists (fst entry) (snd entry) \<in> set w'"
      by blast
    with True show ?thesis
      by (intro exI [of _ w'] exI [of _ s']) (auto simp: Let_def)
  next
    case False
    define s1 where "s1 = s\<lparr>personas := AList.update (fst entry) (snd entry) (personas s)\<rparr>"
    define s2 where "s2 = (if fst entry \<notin> set avatars then emit (UploadUserAvatar (fst entry)) s1 else s1)"
    define w2 where "w2 = (if fst entry \<notin> set avatars
                           then w @ [PersonaImageMissing (fst entry) (snd entry)] else w)"
    have step: "restorePersonas (Some avatars) (entry # rest) w s
                  = restorePersonas (Some avatars) rest w2 s2"
      using False by (simp add: Let_def s1_def s2_def w2_def)
    have s2: "persona_descriptions s2 = persona_descriptions s"
      "default_persona s2 = default_persona s"
      "personas s2 = AList.update (fst entry) (snd entry) (personas s)"
      by (simp_all add: s2_def s1_def)
    from Cons.IH [of w2 s2]
    obtain w' s' where r:
      "restorePersonas (Some avatars) rest w2 s2 = Inr (w', s')"
      "persona_descriptions s' = persona_descriptions s2"
      "default_persona s' = default_persona s2"
      "\<forall>k v. map_of (personas s2) k = Some v \<longrightarrow> map_of (personas s') k = Some v"
      "\<forall>entry \<in> set rest. map_of (personas s') (fst entry) \<noteq> None"
      "set w2 \<subseteq> set w'"
      "\<forall>entry \<in> set rest. map_of (personas s2) (fst entry) \<noteq> None
            \<longrightarrow> PersonaAlreadyExists (fst entry) (snd entry) \<in> set w'"
      by blast
    have keep: "map_of (personas s2) k = Some v" if "map_of (personas s) k = Some v" for k v
      using that False by (auto simp: s2 update_conv')
    have new: "map_of (personas s2) (fst entry) = Some (snd entry)"
      by (simp add: s2 update_conv')
    have "set w \<subseteq> set w2" by (auto simp: w2_def)
    with r keep new False show ?thesis
      unfolding step
      by (intro exI [of _ w'] exI [of _ s']) (auto simp: s2(1,2))
  qed
qed

lemma restorePersonas_again:
  "\<forall>entry \<in> set bp. map_of (personas s) (fst entry) \<noteq> None \<Longrightarrow>
     restorePersonas avatarsList bp w s
       = Inr (w @ map (\<lambda>entry. PersonaAlreadyExists (fst entry) (snd entry)) bp, s)"
  by (induction bp arbitrary: w) (simp_all add: Let_def)

lemma restoreDescriptions_merges:
  "\<exists>w' s'. restoreDescriptions bd w s = (w', s')
      \<and> personas s' = personas s
      \<and> default_persona s' = default_persona s
      \<and> (\<forall>k d. map_of (persona_descriptions s) k = Some d
             \<longrightarrow> map_of (persona_descriptions s') k = Some d)
      \<and> (\<forall>entry \<in> set bd. map_of (persona_descriptions s') (fst entry) \<noteq> None
                           \<or> \<not> truthy (map_of (personas s) (fst entry)))
      \<and> set w \<subseteq> set w'
      \<and> (\<forall>entry \<in> set bd. map_of (persona_descriptions s) (fst entry) \<noteq> None
            \<longrightarrow> DescriptionAlreadyExists (fst entry) (map_of (personas s) (fst entry)) \<in> set w')"
proof (induction bd arbitrary: w s)
  case Nil
  then show ?case by simp
next
  case (Cons entry rest)
  define w2 where
    "w2 = (if map_of (persona_descriptions s) (fst entry) \<noteq> None
           then w @ [DescriptionAlreadyExists (fst entry) (map_of (personas s) (fst entry))]
           else if \<not> truthy (map_of (personas s) (fst entry))
           then w @ [PersonaDoesNotExist (fst entry)] else w)"
  define s2 where
    "s2 = (if map_of (persona_descriptions s) (fst entry) = None
              \<and> truthy (map_of (personas s) (fst entry))
           then s\<lparr>persona_descriptions :=
                    AList.update (fst entry) (snd entry) (persona_descriptions s)\<rparr>
           else s)"
  have step: "restoreDescriptions (entry # rest) w s = restoreDescriptions rest w2 s2"
    by (simp add: Let_def w2_def s2_def)
  have s2: "personas s2 = personas s" "default_persona s2 = default_persona s"
    by (simp_all add: s2_def)
  have keep: "map_of (persona_descriptions s2) k = Some d"
    if "map_of (persona_descriptions s) k = Some d" for k d
    using that by (auto simp: s2_def update_conv')
  have here: "map_of (persona_descriptions s2) (fst entry) \<noteq> None
                \<or> \<not> truthy (map_of (personas s) (fst entry))"
    by (auto simp: s2_def update_conv')
  have warned: "map_of (persona_descriptions s) (fst entry) \<noteq> None
            \<longrightarrow> DescriptionAlreadyExists (fst entry) (map_of (personas s) (fst entry)) \<in> set w2"
    by (simp add: w2_def)
  have sub: "set w \<subseteq> set w2" by (auto simp: w2_def)
  from Cons.IH [of w2 s2]
  obtain w' s' where r:
    "restoreDescriptions rest w2 s2 = (w', s')"
    "personas s' = personas s2"
    "default_persona s' = default_persona s2"
    "\<forall>k d. map_of (persona_descriptions s2) k = Some d
             \<longrightarrow> map_of (persona_descriptions s') k = Some d"
    "\<forall>entry \<in> set rest. map_of (persona_descriptions s') (fst entry) \<noteq> None
                           \<or> \<not> truthy (map_of (personas s2) (fst entry))"
    "set w2 \<subseteq> set w'"
    "\<forall>entry \<in> set rest. map_of (persona_descriptions s2) (fst entry) \<noteq> None
            \<longrightarrow> DescriptionAlreadyExists (fst entry) (map_of (personas s2) (fst entry)) \<in> set w'"
    by blast
  have a: "\<forall>k d. map_of (persona_descriptions s) k = Some d
             \<longrightarrow> map_of (persona_descriptions s') k = Some d"
    using r(4) keep by blast
  have b: "\<forall>e \<in> set (entry # rest). map_of (persona_descriptions s') (fst e) \<noteq> None
                           \<or> \<not> truthy (map_of (personas s) (fst e))"
    using r(4,5) here by (auto simp: s2(1))
  have c: "set w \<subseteq> set w'" using sub r(6) by blast
  have d: "\<forall>e \<in> set (entry # rest). map_of (persona_descriptions s) (fst e) \<noteq> None
            \<longrightarrow> DescriptionAlreadyExists (fst e) (map_of (personas s) (fst e)) \<in> set w'"
    using r(6,7) warned keep by (auto simp: s2(1))
  from r(1,2,3) a b c d show ?case
    unfolding step by (intro exI [of _ w'] exI [of _ s']) (simp add: s2)
qed

lemma restoreDescriptions_again:
  "\<forall>entry \<in> set bd. map_of (persona_descriptions s) (fst entry) \<noteq> None
                        \<or> \<not> truthy (map_of (personas s) (fst entry)) \<Longrightarrow>
     restoreDescriptions bd w s
       = (w @ map (\<lambda>entry. if map_of (persona_descriptions s) (fst entry) \<noteq> None
                            then DescriptionAlreadyExists (fst entry) (map_of (personas s) (fst entry))
                            else PersonaDoesNotExist (fst entry)) bd, s)"
  by (induction bd arbitrary: w) (auto simp: Let_def)

lemma restorePersonas_map:
  "restorePersonas (Some avatars) bp w s = Inr (w', s') \<Longrightarrow>
     map_of (personas s') k
       = (case map_of (personas s) k of Some v \<Rightarrow> Some v | None \<Rightarrow> map_of bp k)"
proof (induction bp arbitrary: w s)
  case Nil
  then show ?case by (auto split: option.splits)
next
  case (Cons entry rest)
  show ?case
  proof (cases "map_of (personas s) (fst entry) \<noteq> None")
    case True
    with Cons.prems have
      "restorePersonas (Some avatars) rest (w @ [PersonaAlreadyExists (fst entry) (snd entry)]) s
         = Inr (w', s')"
      by (simp add: Let_def)
    from Cons.IH [OF this] True show ?thesis
      by (auto split: option.splits)
  next
    case False
    define s2 where
      "s2 = (if fst entry \<notin> set avatars
             then emit (UploadUserAvatar (fst entry))
                    (s\<lparr>personas := AList.update (fst entry) (snd entry) (personas s)\<rparr>)
             else s\<lparr>personas := AList.update (fst entry) (snd entry) (personas s)\<rparr>)"
    define w2 where "w2 = (if fst entry \<notin> set avatars
                           then w @ [PersonaImageMissing (fst entry) (snd entry)] else w)"
    from Cons.prems False have "restorePersonas (Some avatars) rest w2 s2 = Inr (w', s')"
      by (simp add: Let_def s2_def w2_def split: if_splits)
    from Cons.IH [OF this] have
      "map_of (personas s') k
         = (case map_of (personas s2) k of Some v \<Rightarrow> Some v | None \<Rightarrow> map_of rest k)" .
    moreover have "map_of (personas s2) k
                     = (if k = fst entry then Some (snd entry) else map_of (personas s) k)"
      by (simp add: s2_def update_conv')
    ultimately show ?thesis
      using False by (auto split: option.splits)
  qed
qed

lemma restoreDescriptions_map:
  "restoreDescriptions bd w s = (w', s') \<Longrightarrow>
     map_of (persona_descriptions s') k
       = (case map_of (persona_descriptions s) k of
            Some d \<Rightarrow> Some d
          | None \<Rightarrow> if truthy (map_of (personas s) k) then map_of bd k else None)"
proof (induction bd arbitrary: w s)
  case Nil
  then show ?case by (auto split: option.splits)
next
  case (Cons entry rest)
  define w2 where
    "w2 = (if map_of (persona_descriptions s) (fst entry) \<noteq> None
           then w @ [DescriptionAlreadyExists (fst entry) (map_of (personas s) (fst entry))]
           else if \<not> truthy (map_of (personas s) (fst entry))
           then w @ [PersonaDoesNotExist (fst entry)] else w)"
  define s2 where
    "s2 = (if map_of (persona_descriptions s) (fst entry) = None
              \<and> truthy (map_of (personas s) (fst entry))
           then s\<lparr>persona_descriptions :=
                    AList.update (fst entry) (snd entry) (persona_descriptions s)\<rparr>
           else s)"
  have "restoreDescriptions (entry # rest) w s = restoreDescriptions rest w2 s2"
    by (simp add: Let_def w2_def s2_def)
  with Cons.prems have "restoreDescriptions rest w2 s2 = (w', s')"
    by simp
  from Cons.IH [OF this] have
    "map_of (persona_descriptions s') k
       = (case map_of (persona_descriptions s2) k of
            Some d \<Rightarrow> Some d
          | None \<Rightarrow> if truthy (map_of (personas s2) k) then map_of rest k else None)" .
  moreover have "personas s2 = personas s"
    by (simp add: s2_def)
  moreover have "map_of (persona_descriptions s2) k
                   = (if k = fst entry \<and> map_of (persona_descriptions s) (fst entry) = None
                         \<and> truthy (map_of (personas s) (fst entry))
                      then Some (snd entry) else map_of (persona_descriptions s) k)"
    by (simp add: s2_def update_conv')
  ultimately show ?case
    by (auto split: option.splits)
qed

lemma restoreDescriptions_missing:
  "restoreDescriptions bd w s = (w', s') \<Longrightarrow> entry \<in> set bd \<Longrightarrow>
   map_of (persona_descriptions s) (fst entry) = None \<Longrightarrow>
   \<not> truthy (map_of (personas s) (fst entry)) \<Longrightarrow>
     PersonaDoesNotExist (fst entry) \<in> set w'"
proof (induction bd arbitrary: w s)
  case Nil
  then show ?case by simp
next
  case (Cons e rest)
  define w2 where
    "w2 = (if map_of (persona_descriptions s) (fst e) \<noteq> None
           then w @ [DescriptionAlreadyExists (fst e) (map_of (personas s) (fst e))]
           else if \<not> truthy (map_of (personas s) (fst e))
           then w @ [PersonaDoesNotExist (fst e)] else w)"
  define s2 where
    "s2 = (if map_of (persona_descriptions s) (fst e) = None
              \<and> truthy (map_of (personas s) (fst e))
           then s\<lparr>persona_descriptions :=
                    AList.update (fst e) (snd e) (persona_descriptions s)\<rparr>
           else s)"
  have "restoreDescriptions (e # rest) w s = restoreDescriptions rest w2 s2"
    by (simp add: Let_def w2_def s2_def)
  with Cons.prems(1) have run: "restoreDescriptions rest w2 s2 = (w', s')"
    by simp
  have sub: "set w2 \<subseteq> set w'"
    using restoreDescriptions_merges [of rest w2 s2] run by auto
  show ?case
  proof (cases "fst entry = fst e")
    case True
    with Cons.prems(3,4) have "PersonaDoesNotExist (fst entry) \<in> set w2"
      by (simp add: w2_def)
    with sub show ?thesis by blast
  next
    case False
    with Cons.prems(2) have "entry \<in> set rest" by auto
    moreover have "map_of (persona_descriptions s2) (fst entry) = None"
      using Cons.prems(3) False by (simp add: s2_def update_conv')
    moreover have "\<not> truthy (map_of (personas s2) (fst entry))"
      using Cons.prems(4) by (simp add: s2_def)
    ultimately show ?thesis
      using Cons.IH [OF run] by blast
  qed
qed

lemma restoreReport_fields [simp]:
  "personas (restoreReport w s) = personas s"
  "persona_descriptions (restoreReport w s) = persona_descriptions s"
  "default_persona (restoreReport w s) = default_persona s"
  by (simp_all add: restoreReport_def)

text \<open>
  Claim C4, as the code has it. A restore with a well-formed file and an avatar list merges
  the backup into the store: a key that is already in the store keeps its name and its
  descriptor, and the warning "already exists" is written for each such key of the backup;
  a persona key that is new gets the name the backup gives it; a descriptor key that is new
  gets the descriptor the backup gives it when the merged store has a name for the key, and
  is left out with the warning "does not exist" when it has none; no other key appears.
  The default persona of the backup, when it is set and names a persona of the merged
  store, replaces the current default. A second restore of the same file changes neither the names, nor the
  descriptors, nor the default persona; it reports every persona key of the backup as
  already existing, and every descriptor key as already existing or, when the key has no
  persona name, as a persona that does not exist (and so for the default persona).
\<close>

theorem restore_merges_without_overwriting_keys:
  "\<exists>w1 s1 w2 s2.
     onPersonasRestoreInput
       (Parsed \<lparr>backup_personas = Some bp, backup_persona_descriptions = Some bd,
                backup_default_persona = dflt\<rparr>) (Some avatars) s = Inr (w1, s1)
   \<and> (\<forall>k v. map_of (personas s) k = Some v \<longrightarrow> map_of (personas s1) k = Some v)
   \<and> (\<forall>k d. map_of (persona_descriptions s) k = Some d
          \<longrightarrow> map_of (persona_descriptions s1) k = Some d)
   \<and> (\<forall>entry \<in> set bp. map_of (personas s) (fst entry) \<noteq> None
          \<longrightarrow> PersonaAlreadyExists (fst entry) (snd entry) \<in> set w1)
   \<and> (\<forall>entry \<in> set bd. map_of (persona_descriptions s) (fst entry) \<noteq> None
          \<longrightarrow> DescriptionAlreadyExists (fst entry) (map_of (personas s1) (fst entry)) \<in> set w1)
   \<and> (\<forall>k. map_of (personas s1) k
             = (case map_of (personas s) k of Some v \<Rightarrow> Some v | None \<Rightarrow> map_of bp k))
   \<and> (\<forall>k. map_of (persona_descriptions s1) k
             = (case map_of (persona_descriptions s) k of
                  Some d \<Rightarrow> Some d
                | None \<Rightarrow> if truthy (map_of (personas s1) k) then map_of bd k else None))
   \<and> (\<forall>entry \<in> set bd. map_of (persona_descriptions s) (fst entry) = None
            \<and> \<not> truthy (map_of (personas s1) (fst entry))
          \<longrightarrow> PersonaDoesNotExist (fst entry) \<in> set w1)
   \<and> default_persona s1
        = (if truthy dflt \<and> map_of (personas s1) (the dflt) \<noteq> None then dflt
           else default_persona s)
   \<and> onPersonasRestoreInput
       (Parsed \<lparr>backup_personas = Some bp, backup_persona_descriptions = Some bd,
                backup_default_persona = dflt\<rparr>) avatars2 s1 = Inr (w2, s2)
   \<and> personas s2 = personas s1
   \<and> persona_descriptions s2 = persona_descriptions s1
   \<and> default_persona s2 = default_persona s1
   \<and> w2 = map (\<lambda>entry. PersonaAlreadyExists (fst entry) (snd entry)) bp
          @ map (\<lambda>entry. if map_of (persona_descriptions s1) (fst entry) \<noteq> None
                          then DescriptionAlreadyExists (fst entry) (map_of (personas s1) (fst entry))
                          else PersonaDoesNotExist (fst entry)) bd
          @ (if truthy dflt \<and> map_of (personas s1) (the dflt) = None
             then [DefaultPersonaDoesNotExist (the dflt)] else [])"
proof -
  from restorePersonas_merges [of avatars bp "[]" s] obtain wa sa where a:
    "restorePersonas (Some avatars) bp [] s = Inr (wa, sa)"
    "persona_descriptions sa = persona_descriptions s"
    "default_persona sa = default_persona s"
    "\<forall>k v. map_of (personas s) k = Some v \<longrightarrow> map_of (personas sa) k = Some v"
    "\<forall>entry \<in> set bp. map_of (personas sa) (fst entry) \<noteq> None"
    "\<forall>entry \<in> set bp. map_of (personas s) (fst entry) \<noteq> None
            \<longrightarrow> PersonaAlreadyExists (fst entry) (snd entry) \<in> set wa"
    by blast
  from restoreDescriptions_merges [of bd wa sa] obtain wb sb where b:
    "restoreDescriptions bd wa sa = (wb, sb)"
    "personas sb = personas sa"
    "default_persona sb = default_persona sa"
    "\<forall>k d. map_of (persona_descriptions sa) k = Some d
             \<longrightarrow> map_of (persona_descriptions sb) k = Some d"
    "\<forall>entry \<in> set bd. map_of (persona_descriptions sb) (fst entry) \<noteq> None
                           \<or> \<not> truthy (map_of (personas sa) (fst entry))"
    "set wa \<subseteq> set wb"
    "\<forall>entry \<in> set bd. map_of (persona_descriptions sa) (fst entry) \<noteq> None
            \<longrightarrow> DescriptionAlreadyExists (fst entry) (map_of (personas sa) (fst entry)) \<in> set wb"
    by blast
  obtain wc sc where c: "restoreDefault dflt wb sb = (wc, sc)"
    by (cases "restoreDefault dflt wb sb")
  have sc: "personas sc = personas sb" "persona_descriptions sc = persona_descriptions sb"
    "default_persona sc = (if truthy dflt \<and> map_of (personas sb) (the dflt) \<noteq> None then dflt
                            else default_persona sb)"
    "set wb \<subseteq> set wc"
    using c by (auto simp: restoreDefault_def split: if_splits)
  define s1 where "s1 = restoreReport wc sc"
  have first: "onPersonasRestoreInput
       (Parsed \<lparr>backup_personas = Some bp, backup_persona_descriptions = Some bd,
                backup_default_persona = dflt\<rparr>) (Some avatars) s = Inr (wc, s1)"
    by (simp add: onPersonasRestoreInput_def a(1) b(1) c s1_def)
  have s1: "personas s1 = personas sa" "persona_descriptions s1 = persona_descriptions sb"
    "default_persona s1 = default_persona sc"
    by (simp_all add: s1_def sc b)
  define wa2 where "wa2 = map (\<lambda>entry. PersonaAlreadyExists (fst entry) (snd entry)) bp"
  define wb2 where
    "wb2 = wa2 @ map (\<lambda>entry. if map_of (persona_descriptions s1) (fst entry) \<noteq> None
                          then DescriptionAlreadyExists (fst entry) (map_of (personas s1) (fst entry))
                          else PersonaDoesNotExist (fst entry)) bd"
  define wc2 where
    "wc2 = wb2 @ (if truthy dflt \<and> map_of (personas s1) (the dflt) = None
             then [DefaultPersonaDoesNotExist (the dflt)] else [])"
  have again_a: "restorePersonas avatars2 bp [] s1 = Inr (wa2, s1)"
    using restorePersonas_again [of bp s1 avatars2 "[]"] a(5) by (simp add: s1 wa2_def)
  have again_b: "restoreDescriptions bd wa2 s1 = (wb2, s1)"
    using restoreDescriptions_again [of bd s1 wa2] b(5) by (simp add: s1 wb2_def)
  define s2' where
    "s2' = (if truthy dflt \<and> map_of (personas s1) (the dflt) \<noteq> None
            then s1\<lparr>default_persona := dflt\<rparr> else s1)"
  have again_c: "restoreDefault dflt wb2 s1 = (wc2, s2')"
    by (simp add: restoreDefault_def s2'_def wc2_def)
  have s2': "personas s2' = personas s1" "persona_descriptions s2' = persona_descriptions s1"
    "default_persona s2' = default_persona s1"
    by (auto simp: s2'_def s1 sc b(2))
  define s2 where "s2 = restoreReport wc2 s2'"
  have second: "onPersonasRestoreInput
       (Parsed \<lparr>backup_personas = Some bp, backup_persona_descriptions = Some bd,
                backup_default_persona = dflt\<rparr>) avatars2 s1 = Inr (wc2, s2)"
    by (simp add: onPersonasRestoreInput_def again_a again_b again_c s2_def)
  have wc2: "wc2 = map (\<lambda>entry. PersonaAlreadyExists (fst entry) (snd entry)) bp
          @ map (\<lambda>entry. if map_of (persona_descriptions s1) (fst entry) \<noteq> None
                          then DescriptionAlreadyExists (fst entry) (map_of (personas s1) (fst entry))
                          else PersonaDoesNotExist (fst entry)) bd
          @ (if truthy dflt \<and> map_of (personas s1) (the dflt) = None
             then [DefaultPersonaDoesNotExist (the dflt)] else [])"
    by (simp add: wc2_def wb2_def wa2_def)
  have keep_p: "\<forall>k v. map_of (personas s) k = Some v \<longrightarrow> map_of (personas s1) k = Some v"
    using a(4) by (simp add: s1)
  have keep_d: "\<forall>k d. map_of (persona_descriptions s) k = Some d
          \<longrightarrow> map_of (persona_descriptions s1) k = Some d"
    using b(4) by (simp add: s1 a(2))
  have warn_p: "\<forall>entry \<in> set bp. map_of (personas s) (fst entry) \<noteq> None
          \<longrightarrow> PersonaAlreadyExists (fst entry) (snd entry) \<in> set wc"
    using a(6) b(6) sc(4) by blast
  have warn_d: "\<forall>entry \<in> set bd. map_of (persona_descriptions s) (fst entry) \<noteq> None
          \<longrightarrow> DescriptionAlreadyExists (fst entry) (map_of (personas s1) (fst entry)) \<in> set wc"
    using b(7) sc(4) by (auto simp: s1 a(2))
  have map_p: "\<forall>k. map_of (personas s1) k
             = (case map_of (personas s) k of Some v \<Rightarrow> Some v | None \<Rightarrow> map_of bp k)"
    using restorePersonas_map [OF a(1)] by (simp add: s1)
  have map_d: "\<forall>k. map_of (persona_descriptions s1) k
             = (case map_of (persona_descriptions s) k of
                  Some d \<Rightarrow> Some d
                | None \<Rightarrow> if truthy (map_of (personas s1) k) then map_of bd k else None)"
    using restoreDescriptions_map [OF b(1)] by (simp add: s1 a(2))
  have warn_m: "\<forall>entry \<in> set bd. map_of (persona_descriptions s) (fst entry) = None
            \<and> \<not> truthy (map_of (personas s1) (fst entry))
          \<longrightarrow> PersonaDoesNotExist (fst entry) \<in> set wc"
    using restoreDescriptions_missing [OF b(1)] sc(4) by (auto simp: s1 a(2))
  have dflt: "default_persona s1
        = (if truthy dflt \<and> map_of (personas s1) (the dflt) \<noteq> None then dflt
           else default_persona s)"
    by (auto simp: s1 sc b a(3))
  have same: "personas s2 = personas s1" "persona_descriptions s2 = persona_descriptions s1"
    "default_persona s2 = default_persona s1"
    by (simp_all add: s2_def s2')
  from first second keep_p keep_d warn_p warn_d map_p map_d warn_m dflt same wc2 show ?thesis
    by (intro exI [of _ wc] exI [of _ s1] exI [of _ wc2] exI [of _ s2]) blast
qed

theorem restore_merges_without_overwriting_keys_witness:
  "map_of (personas restoreTarget) ''alice.png'' = Some ''Alice''
   \<and> restoredWarnings (onPersonasRestoreInput (Parsed exampleBackup) (Some [''alice.png''])
                          restoreTarget)
       = Inr [PersonaAlreadyExists ''alice.png'' ''Alicia'',
              PersonaImageMissing ''bob.png'' ''Bob'',
              DescriptionAlreadyExists ''alice.png'' (Some ''Alice''),
              PersonaDoesNotExist ''ghost.png'']
   \<and> map_sum fst (personas \<circ> snd)
         (onPersonasRestoreInput (Parsed exampleBackup) (Some [''alice.png'']) restoreTarget)
       = Inr [(''alice.png'', ''Alice''), (''bob.png'', ''Bob'')]
   \<and> map_sum fst (persona_descriptions \<circ> snd)
         (onPersonasRestoreInput (Parsed exampleBackup) (Some [''alice.png'']) restoreTarget)
       = Inr [(''alice.png'', plainDescriptor ''A'' []), (''bob.png'', plainDescriptor ''B'' [])]
   \<and> map_sum fst (personas \<circ> snd)
         (restoreTwice (Parsed exampleBackup) (Some [''alice.png'']) restoreTarget)
       = Inr [(''alice.png'', ''Alice''), (''bob.png'', ''Bob'')]
   \<and> map_sum fst (persona_descriptions \<circ> snd)
         (restoreTwice (Parsed exampleBackup) (Some [''alice.png'']) restoreTarget)
       = Inr [(''alice.png'', plainDescriptor ''A'' []), (''bob.png'', plainDescriptor ''B'' [])]"
  using restore_merges_without_overwriting_keys
          [of "[(''alice.png'', ''Alicia''), (''bob.png'', ''Bob'')]"
              "[(''alice.png'', plainDescriptor ''other'' []),
                (''bob.png'', plainDescriptor ''B'' []),
                (''ghost.png'', plainDescriptor ''G'' [])]"
              "Some ''bob.png''" "[''alice.png'']" restoreTarget "Some [''alice.png'']"]
  by (simp add: example_defs restore_defs Let_def)

text \<open>
  The claim C4 as stated fails on the example: the store has the default persona
  \<^verbatim>\<open>alice.png\<close> and the restore replaces it by the default persona of the backup; and the
  second restore reports \<^verbatim>\<open>ghost.png\<close>, a descriptor without a persona, as a persona that
  does not exist, not as one that already exists.
\<close>

theorem restore_overwrites_default_counterexample:
  "default_persona restoreTarget = Some ''alice.png''
   \<and> restoredDefault (onPersonasRestoreInput (Parsed exampleBackup) (Some [''alice.png''])
                         restoreTarget) = Inr (Some ''bob.png'')
   \<and> restoredWarnings (restoreTwice (Parsed exampleBackup) (Some [''alice.png'']) restoreTarget)
       = Inr [PersonaAlreadyExists ''alice.png'' ''Alicia'',
              PersonaAlreadyExists ''bob.png'' ''Bob'',
              DescriptionAlreadyExists ''alice.png'' (Some ''Alice''),
              DescriptionAlreadyExists ''bob.png'' (Some ''Bob''),
              PersonaDoesNotExist ''ghost.png'']"
  by (simp add: example_defs restore_defs Let_def)

section \<open>Duplicating a persona\<close>

text \<open>
  Claim C10. When the user confirms and the avatar id made from the clock and the name is
  not yet a persona, \<^verbatim>\<open>duplicatePersona\<close> stores a persona under that id with the same name
  and a descriptor that takes description, position, depth, role and lorebook from the
  original descriptor (a property the original lacks gets its default) and has no
  \<^verbatim>\<open>connections\<close> property. The original keeps its name and its descriptor, and so does
  every other key.
\<close>

theorem duplicatePersona_copies_without_connections:
  assumes name: "map_of (personas s) avatarId = Some personaName" "personaName \<noteq> []"
    and orig: "map_of (persona_descriptions s) avatarId = Some d"
    and fresh: "map_of (personas s) (newAvatarId now personaName) = None"
  shows "\<exists>d'. map_of (personas (duplicatePersona avatarId True now s)) (newAvatarId now personaName)
               = Some personaName
           \<and> map_of (persona_descriptions (duplicatePersona avatarId True now s))
                (newAvatarId now personaName) = Some d'
           \<and> description d' = Some (nullish (description d) [])
           \<and> position d' = Some (nullish (position d) IN_PROMPT)
           \<and> depth d' = Some (nullish (depth d) 2)
           \<and> role d' = Some (nullish (role d) 0)
           \<and> lorebook d' = Some (nullish (lorebook d) [])
           \<and> connections d' = None
           \<and> map_of (personas (duplicatePersona avatarId True now s)) avatarId = Some personaName
           \<and> map_of (persona_descriptions (duplicatePersona avatarId True now s)) avatarId = Some d
           \<and> (\<forall>k. k \<noteq> newAvatarId now personaName \<longrightarrow>
                  map_of (personas (duplicatePersona avatarId True now s)) k = map_of (personas s) k
                \<and> map_of (persona_descriptions (duplicatePersona avatarId True now s)) k
                    = map_of (persona_descriptions s) k)"
proof -
  from name(1) fresh have ne: "newAvatarId now personaName \<noteq> avatarId"
    by auto
  show ?thesis
    using name orig ne
    by (simp add: duplicatePersona_def Let_def update_conv' DEFAULT_DEPTH_def DEFAULT_ROLE_def)
qed

theorem duplicatePersona_copies_without_connections_witness:
  "map_of (personas aliceAndBob) ''alice.png'' = Some ''Alice''
   \<and> newAvatarId 1730000000000 ''Alice'' = ''1730000000000-Alice.png''
   \<and> map_of (personas aliceAndBob) ''1730000000000-Alice.png'' = None
   \<and> map_of (persona_descriptions (duplicatePersona ''alice.png'' True 1730000000000 aliceAndBob))
        ''1730000000000-Alice.png''
       = Some \<lparr>description = Some ''A'', position = Some IN_PROMPT, depth = Some 2,
               role = Some 0, lorebook = Some [], connections = None\<rparr>
   \<and> map_of (persona_descriptions (duplicatePersona ''alice.png'' True 1730000000000 aliceAndBob))
        ''alice.png''
       = Some (plainDescriptor ''A'' [PersonaConnection Character ''seraphina.png''])"
  using duplicatePersona_copies_without_connections
          [of aliceAndBob "''alice.png''" "''Alice''"
              "plainDescriptor ''A'' [PersonaConnection Character ''seraphina.png'']"
              1730000000000]
  by (simp add: example_defs duplicatePersona_def newAvatarId_def alphanumeric_def nullish_def
        DEFAULT_DEPTH_def DEFAULT_ROLE_def Let_def)

section \<open>Precedence of the sources\<close>

lemma chatLockStep_locked:
  assumes "truthy (chat_persona s)" and "the (chat_persona s) \<in> set avatars"
  shows "chatLockStep (Some avatars) \<lparr>chatPersona = Some [], connectType = None, store = s\<rparr>
           = Inr \<lparr>chatPersona = chat_persona s, connectType = Some ''chat'', store = s\<rparr>"
  using assms by (simp add: chatLockStep_def Let_def)

lemma connectionStep_chosen: "truthy (chatPersona r) \<Longrightarrow> connectionStep ctx answer r = r"
  by (simp add: connectionStep_def)

lemma connectionStep_none:
  "\<not> truthy (chatPersona r) \<Longrightarrow> getConnectedPersonas ctx (store r) = [] \<Longrightarrow>
     connectionStep ctx answer r = r"
  by (simp add: connectionStep_def Let_def)

lemma selectStep_nothing: "\<not> truthy (chatPersona r) \<Longrightarrow> selectStep r = r"
  by (simp add: selectStep_def)

lemma clearMissingChatLock_user_avatar:
  "clearMissingChatLock userAvatars r = Inr r' \<Longrightarrow>
     user_avatar (store r') = user_avatar (store r)
   \<and> default_persona (store r') = default_persona (store r)"
  by (auto simp: clearMissingChatLock_def Let_def split: option.splits if_splits)

lemma clearMissingDefault_user_avatar:
  "clearMissingDefault userAvatars r = Inr r' \<Longrightarrow> user_avatar (store r') = user_avatar (store r)"
  by (auto simp: clearMissingDefault_def Let_def split: option.splits if_splits)

text \<open>The last three blocks of the resolution, for an avatar list that was fetched.\<close>

lemma resolution_tail:
  "\<exists>r3 r4. clearMissingChatLock (Some avatars) r2 = Inr r3
      \<and> clearMissingDefault (Some avatars) r3 = Inr r4
      \<and> chatPersona (selectStep r4) = chatPersona r2
      \<and> connectType (selectStep r4) = connectType r2
      \<and> (if truthy (chatPersona r2)
          then user_avatar (store (selectStep r4)) = the (chatPersona r2)
          else user_avatar (store (selectStep r4)) = user_avatar (store r2))"
proof -
  obtain r3 where r3: "clearMissingChatLock (Some avatars) r2 = Inr r3"
    using clearMissingChatLock_Some by blast
  obtain r4 where r4: "clearMissingDefault (Some avatars) r3 = Inr r4"
    using clearMissingDefault_Some by blast
  note l3 = clearMissingChatLock_locals [OF r3] and l4 = clearMissingDefault_locals [OF r4]
  note u3 = clearMissingChatLock_user_avatar [OF r3] and u4 = clearMissingDefault_user_avatar [OF r4]
  have "user_avatar (store (selectStep r4)) = the (chatPersona r2)" if "truthy (chatPersona r2)"
    using that l3 l4 by (simp add: selectStep_user_avatar)
  moreover have "user_avatar (store (selectStep r4)) = user_avatar (store r2)"
    if "\<not> truthy (chatPersona r2)"
    using that l3 l4 u3 u4 by (simp add: selectStep_nothing)
  ultimately show ?thesis
    using r3 r4 l3 l4 by (intro exI [of _ r3] exI [of _ r4]) simp
qed

text \<open>
  The precedence of the three sources as the code has it: a chat lock on an avatar of the
  list wins; without such a lock and without a connected persona the default persona is
  taken (whether its avatar is in the list or not); without any of them nothing is selected
  and the selected avatar stays.
\<close>

lemma chat_lock_has_precedence:
  assumes "truthy (chat_persona s)" and "the (chat_persona s) \<in> set avatars"
  shows "selection (loadPersonaForCurrentChat (Some avatars) answer ctx s)
           = Inr (chat_persona s, Some ''chat'', the (chat_persona s))"
proof -
  let ?r = "\<lparr>chatPersona = chat_persona s, connectType = Some ''chat'', store = s\<rparr>"
  have t: "truthy (chatPersona ?r)" using assms(1) by simp
  from resolution_tail [of avatars ?r] obtain r3 r4 where
    "clearMissingChatLock (Some avatars) ?r = Inr r3"
    "clearMissingDefault (Some avatars) r3 = Inr r4"
    "chatPersona (selectStep r4) = chatPersona ?r"
    "connectType (selectStep r4) = connectType ?r"
    "user_avatar (store (selectStep r4)) = the (chatPersona ?r)"
    using t by auto
  then show ?thesis
    using chatLockStep_locked [OF assms] t
    by (simp add: loadPersonaForCurrentChat_def selection_def connectionStep_chosen
        defaultStep_chosen)
qed

lemma default_is_last_source:
  assumes reach: "\<not> truthy (chat_persona s) \<or> the (chat_persona s) \<notin> set avatars"
    and none: "getConnectedPersonas ctx s = []"
  shows "selection (loadPersonaForCurrentChat (Some avatars) answer ctx s)
           = (if truthy (default_persona s)
              then Inr (default_persona s, Some ''default'', the (default_persona s))
              else Inr (Some [], None, user_avatar s))"
proof -
  from chatLockStep_unlocked [OF reach] obtain s1 where
    step1: "chatLockStep (Some avatars) \<lparr>chatPersona = Some [], connectType = None, store = s\<rparr>
              = Inr \<lparr>chatPersona = Some [], connectType = None, store = s1\<rparr>"
    and s1: "persona_descriptions s1 = persona_descriptions s"
    by blast
  have s1': "default_persona s1 = default_persona s" "user_avatar s1 = user_avatar s"
    using step1 by (auto simp: chatLockStep_def Let_def split: if_splits)
  let ?r1 = "\<lparr>chatPersona = Some [], connectType = None, store = s1\<rparr>"
  have c: "connectionStep ctx answer ?r1 = ?r1"
    by (rule connectionStep_none) (simp_all add: getConnectedPersonas_cong [OF s1] none)
  define r2 where "r2 = defaultStep ?r1"
  have r2: "chatPersona r2 = (if truthy (default_persona s) then default_persona s else Some [])"
    "connectType r2 = (if truthy (default_persona s) then Some ''default'' else None)"
    "user_avatar (store r2) = user_avatar s"
    by (simp_all add: r2_def defaultStep_def s1')
  from resolution_tail [of avatars r2] obtain r3 r4 where tail:
    "clearMissingChatLock (Some avatars) r2 = Inr r3"
    "clearMissingDefault (Some avatars) r3 = Inr r4"
    "chatPersona (selectStep r4) = chatPersona r2"
    "connectType (selectStep r4) = connectType r2"
    "if truthy (chatPersona r2)
     then user_avatar (store (selectStep r4)) = the (chatPersona r2)
     else user_avatar (store (selectStep r4)) = user_avatar (store r2)"
    by blast
  have "loadPersonaForCurrentChat (Some avatars) answer ctx s = Inr (selectStep r4)"
    using tail(1,2) by (simp add: loadPersonaForCurrentChat_def step1 c r2_def)
  with tail(3,4,5) r2 show ?thesis
    by (auto simp: selection_def)
qed

section \<open>A default persona whose avatar is missing\<close>

text \<open>
  Claim C1 on the code. The default persona \<^verbatim>\<open>gone.png\<close> is not in the avatar list, the chat
  has no lock and no persona is connected to the character: none of the three sources
  applies, yet the resolution selects \<^verbatim>\<open>gone.png\<close> with connect type \<^verbatim>\<open>'default'\<close> and makes
  it \<^verbatim>\<open>user_avatar\<close>.
\<close>

theorem dangling_default_is_selected:
  "default_persona danglingDefault = Some ''gone.png''
   \<and> ''gone.png'' \<notin> set [''alice.png'']
   \<and> chat_persona danglingDefault = None
   \<and> getConnectedPersonas characterChat danglingDefault = []
   \<and> selection (loadPersonaForCurrentChat (Some [''alice.png'']) Dismissed characterChat
                  danglingDefault)
       = Inr (Some ''gone.png'', Some ''default'', ''gone.png'')"
  by (simp add: example_defs resolution_defs Let_def)

text \<open>
  Claim C3 on the code. Chat lock and default persona both name avatars that are not in the
  avatar list. The resolution clears both, but it does not skip the default persona as a
  candidate: \<^verbatim>\<open>gone.png\<close> is selected. The only persistence calls are
  \<^verbatim>\<open>saveSettingsDebounced\<close>; the chat metadata, where the chat lock lives, is not saved. A
  second run changes nothing more.
\<close>

theorem dangling_locks_cleared_but_default_selected:
  "selection (loadPersonaForCurrentChat (Some [''alice.png'']) Dismissed characterChat
               danglingLocks)
     = Inr (Some ''gone.png'', Some ''default'', ''gone.png'')
   \<and> chat_persona (outcomeStore (loadPersonaForCurrentChat (Some [''alice.png'']) Dismissed
                                   characterChat danglingLocks)) = None
   \<and> default_persona (outcomeStore (loadPersonaForCurrentChat (Some [''alice.png'']) Dismissed
                                      characterChat danglingLocks)) = None
   \<and> events (outcomeStore (loadPersonaForCurrentChat (Some [''alice.png'']) Dismissed
                             characterChat danglingLocks))
       = [ConsoleWarn ''Chat-locked persona avatar not found, unlocking persona'',
          SaveSettingsDebounced,
          ConsoleWarn ''Default persona avatar not found, clearing default persona'',
          SaveSettingsDebounced, SaveSettingsDebounced]
   \<and> outcomeStore (loadPersonaForCurrentChat (Some [''alice.png'']) Dismissed characterChat
        (outcomeStore (loadPersonaForCurrentChat (Some [''alice.png'']) Dismissed characterChat
                         danglingLocks)))
       = outcomeStore (loadPersonaForCurrentChat (Some [''alice.png'']) Dismissed characterChat
                         danglingLocks)"
  by (simp add: example_defs resolution_defs Let_def)

section \<open>Connections to a group\<close>

text \<open>
  Claim C6 on the code. In a group chat \<^verbatim>\<open>lockPersona('character')\<close> stores a connection of
  type \<^verbatim>\<open>'group'\<close> with the id of the group, and \<^verbatim>\<open>isPersonaLocked('character')\<close> recognises
  it. \<^verbatim>\<open>getConnectedPersonas\<close> compares the group id with connections of type
  \<^verbatim>\<open>'character'\<close> only, so it returns no persona and the resolution selects nothing.
\<close>

theorem group_connection_is_not_found:
  "getCurrentConnectionObj groupChat = Some (PersonaConnection Group ''group-1'')
   \<and> map_sum fst persona_descriptions (lockPersona ''character'' groupChat blankState)
       = Inr [(''alice.png'',
               \<lparr>description = Some [], position = Some IN_PROMPT, depth = Some 2,
                role = Some 0, lorebook = Some [],
                connections = Some [PersonaConnection Group ''group-1'']\<rparr>)]
   \<and> holders lockedToGroup (PersonaConnection Group ''group-1'') = [''alice.png'']
   \<and> isPersonaLocked ''character'' groupChat (lockedToGroup\<lparr>user_avatar := ''alice.png''\<rparr>)
       = Inr True
   \<and> getConnectedPersonas groupChat lockedToGroup = []
   \<and> selection (loadPersonaForCurrentChat (Some [''alice.png'']) Dismissed groupChat
                  lockedToGroup)
       = Inr (Some [], None, ''bob.png'')"
  by (simp add: example_defs resolution_defs lockPersona_def lockPersonaToCharacter_def
        createMissingPersona_def unlinkOther_def holders_def holds_def isPersonaLocked_def
        isPersonaConnectionLocked_def Let_def)

text \<open>
  Claim C5 on the code. In a group chat the connection step does not do what the claim says,
  for the same reason. With one persona connected to the group, that persona is not
  selected. With two personas connected and multiple connections not allowed, the first one
  is not selected and no warning is written. With two personas connected and multiple
  connections allowed, the user is not prompted. In each case the resolution selects
  nothing and the selected avatar stays.
\<close>

theorem group_connected_personas_are_not_selected:
  "holders lockedToGroup (PersonaConnection Group ''group-1'') = [''alice.png'']
   \<and> selection (loadPersonaForCurrentChat (Some [''alice.png'', ''bob.png'']) Dismissed groupChat
                  lockedToGroup)
       = Inr (Some [], None, ''bob.png'')
   \<and> holders bothLockedToGroup (PersonaConnection Group ''group-1'') = [''alice.png'', ''bob.png'']
   \<and> selection (loadPersonaForCurrentChat (Some [''alice.png'', ''bob.png'']) Dismissed groupChat
                  bothLockedToGroup)
       = Inr (Some [], None, ''carol.png'')
   \<and> events (outcomeStore (loadPersonaForCurrentChat (Some [''alice.png'', ''bob.png''])
                             Dismissed groupChat bothLockedToGroup)) = []
   \<and> selection (loadPersonaForCurrentChat (Some [''alice.png'', ''bob.png'']) (PersonaChosen 1)
                  groupChat (bothLockedToGroup\<lparr>persona_allow_multi_connections := True\<rparr>))
       = Inr (Some [], None, ''carol.png'')
   \<and> popups (outcomeStore (loadPersonaForCurrentChat (Some [''alice.png'', ''bob.png''])
                             (PersonaChosen 1) groupChat
                             (bothLockedToGroup\<lparr>persona_allow_multi_connections := True\<rparr>))) = []"
  by (simp add: example_defs resolution_defs holders_def holds_def popups_def Let_def)

end
